theory Spec2Isabelle
  imports Main "HOL-Library.Finite_Map" "HOL-Library.Countable" "HOL-Library.Char_ord"
    "HOL-Library.List_Lexorder" "HOL-Library.Sublist" "HOL-Library.AList"
begin

section \<open>JavaScript values the providers handle\<close>

text \<open>
  Every exception of the repository is a JavaScript \<^verbatim>\<open>Error\<close> carrying a message.  An
  error raised by the \<^verbatim>\<open>fs\<close> layer is written with its errno code alone
  (\<^verbatim>\<open>ENOENT\<close>, \<^verbatim>\<open>ENOTDIR\<close>, \<^verbatim>\<open>EEXIST\<close>, \<^verbatim>\<open>EISDIR\<close>, \<^verbatim>\<open>EBUSY\<close>); Node's
  message also names the system call and the path.  A \<^verbatim>\<open>TypeError\<close> or \<^verbatim>\<open>SyntaxError\<close>
  of the engine is written with its name alone.
\<close>

datatype error = Error (message: string)

text \<open>\<^verbatim>\<open>new Error(`${prefix}: ${error.message}`)\<close>, the re-throw of every catch block.\<close>

definition wrap :: "string \<Rightarrow> error \<Rightarrow> error" where
  "wrap pre e = Error (pre @ '': '' @ message e)"

text \<open>A key between single quotes, as in \<^verbatim>\<open>`Object '${key}' not found`\<close>.\<close>

definition quoted :: "string \<Rightarrow> string" where
  "quoted s = CHR 0x27 # s @ [CHR 0x27]"

text \<open>
  The values \<^verbatim>\<open>JSON.parse\<close> can return.  An object is a finite map from property names
  to values; numbers are the integers (sizes are byte counts).
\<close>

datatype json =
    JNull
  | JBool bool
  | JNum int
  | JStr string
  | JArr "json list"
  | JObj "(string, json) fmap"

instance json :: countable
  by countable_datatype

text \<open>JavaScript truthiness, as used by \<^verbatim>\<open>x || default\<close>.\<close>

fun truthy :: "json \<Rightarrow> bool" where
  "truthy JNull = False"
| "truthy (JBool b) = b"
| "truthy (JNum n) = (n \<noteq> 0)"
| "truthy (JStr s) = (s \<noteq> [])"
| "truthy (JArr xs) = True"
| "truthy (JObj m) = True"

text \<open>
  Reading one of the sidecar's properties (\<^verbatim>\<open>key\<close>, \<^verbatim>\<open>size\<close>, \<^verbatim>\<open>contentType\<close>,
  \<^verbatim>\<open>hash\<close>, \<^verbatim>\<open>uploadTime\<close>, \<^verbatim>\<open>metadata\<close>) off a parsed value: \<open>None\<close> is
  \<^verbatim>\<open>undefined\<close>.  None of these names is a property of a string, a number, a boolean or an
  array.  Reading a property off \<^verbatim>\<open>null\<close> throws a TypeError, which the callers below
  test for before they read.
\<close>

fun js_get :: "json \<Rightarrow> string \<Rightarrow> json option" where
  "js_get (JObj m) f = fmlookup m f"
| "js_get JNull f = None"
| "js_get (JBool b) f = None"
| "js_get (JNum n) f = None"
| "js_get (JStr s) f = None"
| "js_get (JArr xs) f = None"

text \<open>Decimal rendering of a number inside a template literal.\<close>

fun show_nat :: "nat \<Rightarrow> string" where
  "show_nat n =
     (if n < 10 then [''0123456789'' ! n]
      else show_nat (n div 10) @ [''0123456789'' ! (n mod 10)])"

declare show_nat.simps [simp del]

text \<open>
  The own enumerable properties that object spread \<^verbatim>\<open>{...v}\<close> copies: all of an object's,
  the indices of an array or of a string, none of \<^verbatim>\<open>null\<close>, a number or a boolean.
\<close>

fun spread :: "json \<Rightarrow> (string, json) fmap" where
  "spread (JObj m) = m"
| "spread (JArr xs) = fmap_of_list (zip (map show_nat [0..<length xs]) xs)"
| "spread (JStr s) = fmap_of_list (zip (map show_nat [0..<length s]) (map (\<lambda>c. JStr [c]) s))"
| "spread JNull = fmempty"
| "spread (JBool b) = fmempty"
| "spread (JNum n) = fmempty"

section \<open>The file system under \<^verbatim>\<open>fs-extra\<close>\<close>

text \<open>
  A file holds bytes; a directory lists its entries in the order \<^verbatim>\<open>readdir\<close> reports
  them.  The whole file system is the root directory's node.  A path is the list of names
  from the root; the path of a string that ends with a slash, which \<^verbatim>\<open>path.join\<close> keeps,
  ends with the empty name.  Symbolic links, permissions and file times are not modelled,
  so the \<^verbatim>\<open>lastModified\<close> field of the providers' results is left out.  The system calls
  are Linux's, under \<^verbatim>\<open>fs-extra\<close> 11.
\<close>

type_synonym bytes = string
type_synonym path = "string list"

datatype node = File bytes | Dir "(string \<times> node) list"

definition slash :: "path \<Rightarrow> bool" where
  "slash p = (p \<noteq> [] \<and> last p = [])"

definition names :: "path \<Rightarrow> path" where
  "names p = (if slash p then butlast p else p)"

text \<open>\<^verbatim>\<open>path.dirname\<close> of a normalised path.\<close>

definition dirname :: "path \<Rightarrow> path" where
  "dirname p = butlast (names p)"

fun lookup :: "node \<Rightarrow> path \<Rightarrow> node option" where
  "lookup n [] = Some n"
| "lookup (File b) (s # p) = None"
| "lookup (Dir es) (s # p) = (case map_of es s of None \<Rightarrow> None | Some c \<Rightarrow> lookup c p)"

text \<open>
  A path is blocked when a file stands where it needs a directory: at one of the names
  before its last, or at its last name when the path ends with a slash.  This is when the
  system calls report \<^verbatim>\<open>ENOTDIR\<close>.
\<close>

fun blocked :: "node \<Rightarrow> path \<Rightarrow> bool" where
  "blocked t [] = False"
| "blocked (File b) (s # p) = True"
| "blocked (Dir es) (s # p) = (case map_of es s of None \<Rightarrow> False | Some c \<Rightarrow> blocked c p)"

text \<open>\<^verbatim>\<open>fs.stat\<close>, and \<^verbatim>\<open>fs.lstat\<close>, which is the same without symbolic links.\<close>

definition stat :: "node \<Rightarrow> path \<Rightarrow> error + node" where
  "stat fs p =
     (if blocked fs p then Inl (Error ''ENOTDIR'')
      else case lookup fs (names p) of None \<Rightarrow> Inl (Error ''ENOENT'') | Some n \<Rightarrow> Inr n)"

text \<open>\<^verbatim>\<open>lstat(p).catch(err => { if (err.code === 'ENOENT') return null; throw err })\<close>\<close>

definition stat_or_missing :: "node \<Rightarrow> path \<Rightarrow> error + node option" where
  "stat_or_missing fs p =
     (case stat fs p of
        Inr n \<Rightarrow> Inr (Some n)
      | Inl e \<Rightarrow> if e = Error ''ENOENT'' then Inr None else Inl e)"

text \<open>\<^verbatim>\<open>fs.pathExists\<close> and \<^verbatim>\<open>fs.existsSync\<close>: whether \<^verbatim>\<open>access\<close> succeeds.\<close>

definition pathExists :: "node \<Rightarrow> path \<Rightarrow> bool" where
  "pathExists fs p = (case stat fs p of Inl e \<Rightarrow> False | Inr n \<Rightarrow> True)"

text \<open>
  \<open>put p new fs\<close> sets the node at \<open>p\<close>, creating the last name when it is missing;
  \<open>None\<close> when the parent of \<open>p\<close> is not an existing directory.
\<close>

fun put :: "path \<Rightarrow> node \<Rightarrow> node \<Rightarrow> node option" where
  "put [] new t = Some new"
| "put (s # p) new (File b) = None"
| "put (s # p) new (Dir es) =
     (case map_of es s of
        Some c \<Rightarrow> map_option (\<lambda>c'. Dir (AList.update s c' es)) (put p new c)
      | None \<Rightarrow> if p = [] then Some (Dir (AList.update s new es)) else None)"

text \<open>\<open>mkdir -p\<close>: every missing directory on the way is created; \<open>None\<close> when a file is met.\<close>

fun mkdirs :: "path \<Rightarrow> node \<Rightarrow> node option" where
  "mkdirs [] (Dir es) = Some (Dir es)"
| "mkdirs [] (File b) = None"
| "mkdirs (s # p) (File b) = None"
| "mkdirs (s # p) (Dir es) =
     map_option (\<lambda>c'. Dir (AList.update s c' es))
       (mkdirs p (case map_of es s of None \<Rightarrow> Dir [] | Some c \<Rightarrow> c))"

text \<open>
  \<^verbatim>\<open>fs.ensureDir\<close> is \<^verbatim>\<open>fs.mkdir(dir, { recursive: true })\<close>.  It fails with
  \<^verbatim>\<open>ENOTDIR\<close> when the path is blocked, and with \<^verbatim>\<open>EEXIST\<close> when the directory to
  make exists as a file.
\<close>

definition ensureDir :: "path \<Rightarrow> node \<Rightarrow> error + node" where
  "ensureDir p fs =
     (case mkdirs (names p) fs of
        Some fs' \<Rightarrow> Inr fs'
      | None \<Rightarrow> Inl (Error (if blocked fs p then ''ENOTDIR'' else ''EEXIST'')))"

text \<open>
  \<^verbatim>\<open>fs.writeFile\<close> is Node's own: it opens the path with \<^verbatim>\<open>O_WRONLY | O_CREAT | O_TRUNC\<close>,
  so it replaces or creates the file and never creates a missing parent directory (that
  is \<^verbatim>\<open>outputFile\<close>).  The system walks to the parent first (\<^verbatim>\<open>ENOTDIR\<close>, \<^verbatim>\<open>ENOENT\<close>),
  then refuses a path that ends with a slash and a directory (\<^verbatim>\<open>EISDIR\<close>).
\<close>

definition writeFile :: "path \<Rightarrow> bytes \<Rightarrow> node \<Rightarrow> error + node" where
  "writeFile p b fs =
     (if blocked fs (names p) then Inl (Error ''ENOTDIR'')
      else if lookup fs (dirname p) = None then Inl (Error ''ENOENT'')
      else if slash p then Inl (Error ''EISDIR'')
      else case lookup fs p of
             Some (Dir es) \<Rightarrow> Inl (Error ''EISDIR'')
           | _ \<Rightarrow> (case put p (File b) fs of
                     None \<Rightarrow> Inl (Error ''ENOENT'')
                   | Some fs' \<Rightarrow> Inr fs'))"

text \<open>\<^verbatim>\<open>fs.readFile\<close>, and reading a \<^verbatim>\<open>createReadStream\<close> to its end.\<close>

definition readFile :: "node \<Rightarrow> path \<Rightarrow> error + bytes" where
  "readFile fs p =
     (case stat fs p of
        Inl e \<Rightarrow> Inl e
      | Inr (Dir es) \<Rightarrow> Inl (Error ''EISDIR'')
      | Inr (File b) \<Rightarrow> Inr b)"

text \<open>
  \<open>rm -rf\<close> of a list of names: a missing path is no error, a file standing where a
  directory of the path should be is (\<^verbatim>\<open>ENOTDIR\<close>), and so is the root (\<^verbatim>\<open>EBUSY\<close>).
\<close>

fun rimraf :: "path \<Rightarrow> node \<Rightarrow> error + node" where
  "rimraf [] t = Inl (Error ''EBUSY'')"
| "rimraf (s # p) (File b) = Inl (Error ''ENOTDIR'')"
| "rimraf [s] (Dir es) = Inr (Dir (filter (\<lambda>e. fst e \<noteq> s) es))"
| "rimraf (s # p) (Dir es) =
     (case map_of es s of
        None \<Rightarrow> Inr (Dir es)
      | Some c \<Rightarrow>
          (case rimraf p c of
             Inl e \<Rightarrow> Inl e
           | Inr c' \<Rightarrow> Inr (Dir (AList.update s c' es))))"

text \<open>
  \<^verbatim>\<open>fs.remove\<close> is \<^verbatim>\<open>fs.rm(path, { recursive: true, force: true })\<close>, which calls
  \<^verbatim>\<open>lstat\<close> first: a missing path is no error, any other error of \<^verbatim>\<open>lstat\<close> is thrown.
\<close>

definition remove :: "path \<Rightarrow> node \<Rightarrow> error + node" where
  "remove p fs =
     (case stat_or_missing fs p of
        Inl e \<Rightarrow> Inl e
      | Inr None \<Rightarrow> Inr fs
      | Inr (Some n) \<Rightarrow> rimraf (names p) fs)"

text \<open>
  The two checks of \<^verbatim>\<open>fs.copy\<close> on the kinds of source and destination; its messages
  are written without the two path names.
\<close>

definition clash :: "node \<Rightarrow> node option \<Rightarrow> error option" where
  "clash s d =
     (case (s, d) of
        (Dir ss, Some (File b)) \<Rightarrow> Some (Error ''Cannot overwrite non-directory with directory'')
      | (File b, Some (Dir ds)) \<Rightarrow> Some (Error ''Cannot overwrite directory with non-directory'')
      | _ \<Rightarrow> None)"

text \<open>
  What \<^verbatim>\<open>fs.copy\<close> of a directory leaves at the destination: the directory is merged
  into the one that is there entry by entry, a file replacing a file.  Where a file meets
  a directory deeper in the two trees, \<^verbatim>\<open>fs-extra\<close> stops with part of the tree copied;
  here the copy fails as a whole.
\<close>

fun overlay :: "node \<Rightarrow> node option \<Rightarrow> error + node" where
  "overlay (File b) None = Inr (File b)"
| "overlay (File b) (Some (File b')) = Inr (File b)"
| "overlay (File b) (Some (Dir ds)) = Inl (Error ''Cannot overwrite directory with non-directory'')"
| "overlay (Dir ss) None = Inr (Dir ss)"
| "overlay (Dir ss) (Some (File b')) = Inl (Error ''Cannot overwrite non-directory with directory'')"
| "overlay (Dir ss) (Some (Dir ds)) =
     map_sum id Dir
       (fold (\<lambda>(n, c) acc. case acc of Inl e \<Rightarrow> Inl e
                 | Inr ds' \<Rightarrow> map_sum id (\<lambda>c'. AList.update n c' ds') (overlay c (map_of ds' n)))
          ss (Inr ds))"

text \<open>
  \<^verbatim>\<open>checkPaths\<close> of \<^verbatim>\<open>fs.copy\<close> looks at both paths and returns what is there.  Two
  paths are the same file when they have the same names.
\<close>

definition checkPaths :: "path \<Rightarrow> path \<Rightarrow> node \<Rightarrow> error + node \<times> node option" where
  "checkPaths src dest fs =
     (case stat fs src of
        Inl e \<Rightarrow> Inl e
      | Inr s \<Rightarrow>
          (case stat_or_missing fs dest of
             Inl e \<Rightarrow> Inl e
           | Inr d \<Rightarrow>
               if d \<noteq> None \<and> names src = names dest
               then Inl (Error ''Source and destination must not be the same.'')
               else (case clash s d of
                       Some e \<Rightarrow> Inl e
                     | None \<Rightarrow>
                         if (case s of Dir ss \<Rightarrow> True | File b \<Rightarrow> False)
                            \<and> prefix (names src) (names dest)
                         then Inl (Error ''Cannot copy to a subdirectory of itself'')
                         else Inr (s, d))))"

text \<open>
  \<^verbatim>\<open>getStatsAndPerformCopy\<close>: a file is copied by opening the destination as
  \<^verbatim>\<open>writeFile\<close> does, a directory is made or merged.
\<close>

definition getStatsAndPerformCopy :: "node \<Rightarrow> node option \<Rightarrow> path \<Rightarrow> node \<Rightarrow> error + node" where
  "getStatsAndPerformCopy s d dest fs =
     (case s of
        File b \<Rightarrow> writeFile dest b fs
      | Dir ss \<Rightarrow>
          (case overlay s d of
             Inl e \<Rightarrow> Inl e
           | Inr n \<Rightarrow>
               (case put (names dest) n fs of
                  None \<Rightarrow> Inl (Error ''ENOENT'')
                | Some fs' \<Rightarrow> Inr fs')))"

text \<open>
  \<^verbatim>\<open>fs.copy(src, dest)\<close>: after \<^verbatim>\<open>checkPaths\<close>, the parent of the destination is made
  when it is missing, and the copy is performed.  \<^verbatim>\<open>checkParentPaths\<close> finds nothing
  that \<^verbatim>\<open>checkPaths\<close> has not found when there are no links.
\<close>

definition copy :: "path \<Rightarrow> path \<Rightarrow> node \<Rightarrow> error + node" where
  "copy src dest fs =
     (case checkPaths src dest fs of
        Inl e \<Rightarrow> Inl e
      | Inr (s, d) \<Rightarrow>
          (case (if pathExists fs (dirname dest) then Inr fs
                 else ensureDir (dirname dest) fs) of
             Inl e \<Rightarrow> Inl e
           | Inr fs1 \<Rightarrow> getStatsAndPerformCopy s d dest fs1))"

section \<open>Paths: \<^verbatim>\<open>path.join\<close>\<close>

fun split_slash :: "string \<Rightarrow> string list" where
  "split_slash [] = [[]]"
| "split_slash (c # cs) =
     (if c = CHR ''/'' then [] # split_slash cs
      else (case split_slash cs of [] \<Rightarrow> [[c]] | seg # rest \<Rightarrow> (c # seg) # rest))"

text \<open>
  Normalisation, one segment at a time: an empty segment and \<^verbatim>\<open>.\<close> are dropped, \<^verbatim>\<open>..\<close>
  climbs to the parent (the root is its own parent), any other name descends.
\<close>

definition norm_step :: "string \<Rightarrow> path \<Rightarrow> path" where
  "norm_step s acc =
     (if s = [] \<or> s = ''.'' then acc else if s = ''..'' then butlast acc else acc @ [s])"

text \<open>
  \<^verbatim>\<open>path.join(base, s)\<close> for an absolute base path, given by its names: the joined
  string is normalised as a whole.  An empty \<open>s\<close> is left out of the join; otherwise the
  result ends with a slash when \<open>s\<close> does, unless it is the root.
\<close>

definition path_join :: "path \<Rightarrow> string \<Rightarrow> path" where
  "path_join base s =
     (let p = fold norm_step (base @ split_slash s) []
      in if p \<noteq> [] \<and> (if s = [] then slash base else last s = CHR ''/'') then p @ [[]] else p)"

section \<open>What the platform supplies\<close>

text \<open>
  Library and operating-system functions the providers call and the repository does not
  define, taken as parameters:
  \<^item> \<open>resolve\<close>: the path a caller-supplied path string names (\<open>None\<close> for the empty
    string, which names none);
  \<^item> \<open>md5hex\<close>: \<^verbatim>\<open>crypto.createHash('md5')\<close> fed the bytes, \<^verbatim>\<open>digest('hex')\<close>;
  \<^item> \<open>stringify\<close>: \<^verbatim>\<open>JSON.stringify(v, null, 2)\<close>, as the bytes \<^verbatim>\<open>writeFile\<close> stores;
  \<^item> \<open>parse\<close>: \<^verbatim>\<open>JSON.parse\<close> of a file read as utf8, \<open>None\<close> for a SyntaxError;
  \<^item> \<open>mimeLookup\<close>: \<^verbatim>\<open>mimeTypes.lookup\<close>, \<open>None\<close> for \<^verbatim>\<open>false\<close>;
  \<^item> \<open>localeCompare\<close>: \<^verbatim>\<open>String.prototype.localeCompare\<close>;
  \<^item> \<open>dirSize\<close>: the size \<^verbatim>\<open>stat\<close> reports for a directory.
\<close>

record platform =
  resolve :: "string \<Rightarrow> path option"
  md5hex :: "bytes \<Rightarrow> string"
  stringify :: "json \<Rightarrow> bytes"
  parse :: "bytes \<Rightarrow> json option"
  mimeLookup :: "string \<Rightarrow> string option"
  localeCompare :: "string \<Rightarrow> string \<Rightarrow> int"
  dirSize :: nat

text \<open>The three clock readings of an operation: \<^verbatim>\<open>Date.now()\<close> twice and \<^verbatim>\<open>new Date().toISOString()\<close>.\<close>

record clock =
  startTime :: int
  isoNow :: string
  endTime :: int

text \<open>
  \<^verbatim>\<open>Buffer.from(string)\<close>: the UTF-8 bytes of a string whose code units are below 256,
  one byte below 128 and two from there on.
\<close>

definition utf8 :: "string \<Rightarrow> bytes" where
  "utf8 s =
     concat (map (\<lambda>c. if (of_char c :: nat) < 128 then [c]
                       else [char_of (192 + (of_char c :: nat) div 64),
                             char_of (128 + (of_char c :: nat) mod 64)]) s)"

definition stat_size :: "platform \<Rightarrow> node \<Rightarrow> nat" where
  "stat_size env n = (case n of File b \<Rightarrow> length b | Dir es \<Rightarrow> dirSize env)"

definition startsWith :: "string \<Rightarrow> string \<Rightarrow> bool" where
  "startsWith s pre = prefix pre s"

definition endsWith :: "string \<Rightarrow> string \<Rightarrow> bool" where
  "endsWith s suf = prefix (rev suf) (rev s)"

section \<open>The local provider (\<^verbatim>\<open>src/providers/local.js\<close>)\<close>

text \<open>
  The provider's \<^verbatim>\<open>config\<close> (\<open>prov_config\<close>) and its \<^verbatim>\<open>basePath\<close>, as the names of
  the absolute path it stands for; \<^verbatim>\<open>metadataPath\<close> is
  \<^verbatim>\<open>path.join(this.basePath, '.metadata')\<close>.
\<close>

record local_provider =
  prov_config :: json
  basePath :: path

definition metadataPath :: "local_provider \<Rightarrow> path" where
  "metadataPath prov = path_join (basePath prov) ''.metadata''"

definition provider_name :: string where
  "provider_name = ''local''"

text \<open>\<^verbatim>\<open>key.replace(/[^a-zA-Z0-9._\/-]/g, '_')\<close>\<close>

definition safe_chars :: "char list" where
  "safe_chars =
     ''abcdefghijklmnopqrstuvwxyz'' @ ''ABCDEFGHIJKLMNOPQRSTUVWXYZ'' @ ''0123456789'' @ ''._/-''"

definition sanitize :: "string \<Rightarrow> string" where
  "sanitize key = map (\<lambda>c. if c \<in> set safe_chars then c else CHR ''_'') key"

definition getFilePath :: "local_provider \<Rightarrow> string \<Rightarrow> path" where
  "getFilePath prov key = path_join (basePath prov) (sanitize key)"

definition getMetadataPath :: "local_provider \<Rightarrow> string \<Rightarrow> path" where
  "getMetadataPath prov key = path_join (metadataPath prov) (sanitize key @ ''.json'')"

text \<open>
  \<^verbatim>\<open>initialize\<close>: \<^verbatim>\<open>validateConfig\<close> refuses a falsy configuration, then both directories
  are ensured.
\<close>

definition local_initialize :: "local_provider \<Rightarrow> node \<Rightarrow> (error + unit) \<times> node" where
  "local_initialize prov fs =
     (if \<not> truthy (prov_config prov) then (Inl (Error ''Configuration is required''), fs)
      else case ensureDir (basePath prov) fs of
             Inl e \<Rightarrow> (Inl (wrap ''Failed to initialize local storage'' e), fs)
           | Inr fs1 \<Rightarrow>
               (case ensureDir (metadataPath prov) fs1 of
                  Inl e \<Rightarrow> (Inl (wrap ''Failed to initialize local storage'' e), fs1)
                | Inr fs2 \<Rightarrow> (Inr (), fs2)))"

text \<open>\<^verbatim>\<open>_calculateHash\<close>: the read stream fails on a directory and on a missing file.\<close>

definition calculateHash :: "platform \<Rightarrow> node \<Rightarrow> path \<Rightarrow> error + string" where
  "calculateHash env fs filePath =
     (case readFile fs filePath of Inl e \<Rightarrow> Inl e | Inr b \<Rightarrow> Inr (md5hex env b))"

datatype upload_data = Buffer bytes | Str string

record upload_options =
  opt_contentType :: "string option"
  opt_metadata :: "json option"

record upload_result =
  up_success :: bool
  up_key :: string
  up_location :: path
  up_etag :: string
  up_size :: nat
  up_uploadTime :: int
  up_provider :: string

text \<open>\<^verbatim>\<open>typeof data === 'string' && fs.existsSync(data)\<close>\<close>

definition is_existing_path :: "platform \<Rightarrow> node \<Rightarrow> upload_data \<Rightarrow> path option" where
  "is_existing_path env fs data =
     (case data of
        Buffer b \<Rightarrow> None
      | Str s \<Rightarrow>
          (case resolve env s of
             None \<Rightarrow> None
           | Some p \<Rightarrow> if pathExists fs p then Some p else None))"

text \<open>\<^verbatim>\<open>x || 'application/octet-stream'\<close> for a string that may be undefined or empty.\<close>

definition or_octet_stream :: "string option \<Rightarrow> string" where
  "or_octet_stream x =
     (case x of None \<Rightarrow> ''application/octet-stream''
      | Some s \<Rightarrow> if s = [] then ''application/octet-stream'' else s)"

text \<open>
  The branch of \<^verbatim>\<open>upload\<close> that stores the content and finds \<^verbatim>\<open>contentLength\<close> and
  \<^verbatim>\<open>contentType\<close>: a string naming an existing path is copied from there, anything else
  is written as bytes.
\<close>

definition store_content ::
  "platform \<Rightarrow> path \<Rightarrow> upload_data \<Rightarrow> string option \<Rightarrow> node
     \<Rightarrow> (error + nat \<times> string option) \<times> node" where
  "store_content env filePath data contentType fs =
     (case is_existing_path env fs data of
        Some src \<Rightarrow>
          (case copy src filePath fs of
             Inl e \<Rightarrow> (Inl e, fs)
           | Inr fs1 \<Rightarrow>
               (case stat fs1 filePath of
                  Inl e \<Rightarrow> (Inl e, fs1)
                | Inr stats \<Rightarrow>
                    (Inr (stat_size env stats,
                          if contentType = None \<or> contentType = Some []
                          then Some (or_octet_stream
                                 (mimeLookup env (case data of Str s \<Rightarrow> s | Buffer b \<Rightarrow> b)))
                          else contentType), fs1)))
      | None \<Rightarrow>
          (let buffer = (case data of Buffer b \<Rightarrow> b | Str s \<Rightarrow> utf8 s) in
           case writeFile filePath buffer fs of
             Inl e \<Rightarrow> (Inl e, fs)
           | Inr fs1 \<Rightarrow> (Inr (length buffer, contentType), fs1)))"

text \<open>\<^verbatim>\<open>options.metadata || {}\<close> and \<^verbatim>\<open>metadata.metadata || {}\<close>\<close>

definition or_empty_object :: "json option \<Rightarrow> json" where
  "or_empty_object x =
     (case x of None \<Rightarrow> JObj fmempty | Some v \<Rightarrow> if truthy v then v else JObj fmempty)"

text \<open>The metadata object \<^verbatim>\<open>upload\<close> writes to the sidecar.\<close>

definition sidecar ::
  "string \<Rightarrow> nat \<Rightarrow> string \<Rightarrow> string \<Rightarrow> string \<Rightarrow> json \<Rightarrow> json" where
  "sidecar key contentLength contentType hash uploadTime userMetadata =
     JObj (fmap_of_list
       [(''key'', JStr key),
        (''size'', JNum (int contentLength)),
        (''contentType'', JStr contentType),
        (''hash'', JStr hash),
        (''uploadTime'', JStr uploadTime),
        (''metadata'', userMetadata)])"

definition local_upload ::
  "platform \<Rightarrow> local_provider \<Rightarrow> clock \<Rightarrow> string \<Rightarrow> upload_data \<Rightarrow> upload_options \<Rightarrow> node
     \<Rightarrow> (error + upload_result) \<times> node" where
  "local_upload env prov clk key data opts fs =
     (let filePath = getFilePath prov key;
          metadataFile = getMetadataPath prov key;
          failed = (\<lambda>e. Inl (wrap ''Local storage upload failed'' e))
      in case ensureDir (dirname filePath) fs of
           Inl e \<Rightarrow> (failed e, fs)
         | Inr fs1 \<Rightarrow>
             (case store_content env filePath data (opt_contentType opts) fs1 of
                (Inl e, fs2) \<Rightarrow> (failed e, fs2)
              | (Inr (contentLength, contentType), fs2) \<Rightarrow>
                  (case calculateHash env fs2 filePath of
                     Inl e \<Rightarrow> (failed e, fs2)
                   | Inr hash \<Rightarrow>
                       (case writeFile metadataFile
                               (stringify env
                                  (sidecar key contentLength (or_octet_stream contentType) hash
                                     (isoNow clk) (or_empty_object (opt_metadata opts))))
                               fs2 of
                          Inl e \<Rightarrow> (failed e, fs2)
                        | Inr fs3 \<Rightarrow>
                            (Inr \<lparr>up_success = True, up_key = key, up_location = filePath,
                                  up_etag = hash, up_size = contentLength,
                                  up_uploadTime = endTime clk - startTime clk,
                                  up_provider = provider_name\<rparr>, fs3)))))"

record download_result =
  dl_success :: bool
  dl_key :: string
  dl_destinationPath :: string
  dl_size :: nat
  dl_downloadTime :: int
  dl_provider :: string

definition not_found :: "string \<Rightarrow> error" where
  "not_found key = Error (''Object '' @ quoted key @ '' not found'')"

definition local_download ::
  "platform \<Rightarrow> local_provider \<Rightarrow> clock \<Rightarrow> string \<Rightarrow> string \<Rightarrow> node
     \<Rightarrow> (error + download_result) \<times> node" where
  "local_download env prov clk key destinationPath fs =
     (let filePath = getFilePath prov key;
          failed = (\<lambda>e. Inl (wrap ''Local storage download failed'' e))
      in if \<not> pathExists fs filePath then (failed (not_found key), fs)
         else (case resolve env destinationPath of
                 None \<Rightarrow> (failed (Error ''ENOENT''), fs)
               | Some dest \<Rightarrow>
                   (case ensureDir (dirname dest) fs of
                      Inl e \<Rightarrow> (failed e, fs)
                    | Inr fs1 \<Rightarrow>
                        (case copy filePath dest fs1 of
                           Inl e \<Rightarrow> (failed e, fs1)
                         | Inr fs2 \<Rightarrow>
                             (case stat fs2 dest of
                                Inl e \<Rightarrow> (failed e, fs2)
                              | Inr stats \<Rightarrow>
                                  (Inr \<lparr>dl_success = True, dl_key = key,
                                        dl_destinationPath = destinationPath,
                                        dl_size = stat_size env stats,
                                        dl_downloadTime = endTime clk - startTime clk,
                                        dl_provider = provider_name\<rparr>, fs2))))))"

record object_metadata =
  om_key :: string
  om_size :: "json option"
  om_etag :: "json option"
  om_contentType :: "json option"
  om_metadata :: json
  om_provider :: string

definition local_getMetadata ::
  "platform \<Rightarrow> local_provider \<Rightarrow> string \<Rightarrow> node \<Rightarrow> error + object_metadata" where
  "local_getMetadata env prov key fs =
     (let metadataFile = getMetadataPath prov key;
          filePath = getFilePath prov key;
          failed = (\<lambda>e. Inl (wrap ''Failed to get metadata'' e))
      in if \<not> pathExists fs metadataFile then failed (not_found key)
         else (case readFile fs metadataFile of
                 Inl e \<Rightarrow> failed e
               | Inr text \<Rightarrow>
                   (case parse env text of
                      None \<Rightarrow> failed (Error ''SyntaxError'')
                    | Some metadata \<Rightarrow>
                        (case stat fs filePath of
                           Inl e \<Rightarrow> failed e
                         | Inr stats \<Rightarrow>
                             if metadata = JNull then failed (Error ''TypeError'')
                             else Inr \<lparr>om_key = key,
                                       om_size = js_get metadata ''size'',
                                       om_etag = js_get metadata ''hash'',
                                       om_contentType = js_get metadata ''contentType'',
                                       om_metadata = or_empty_object (js_get metadata ''metadata''),
                                       om_provider = provider_name\<rparr>))))"

text \<open>
  \<^verbatim>\<open>_findMetadataFiles\<close>: the recursive walk, in \<^verbatim>\<open>readdir\<close> order.  \<^verbatim>\<open>readdir\<close> fails
  on a missing directory and on a file; inside the walk it is only called on directories.
\<close>

fun walkMetadataFiles :: "path \<Rightarrow> node \<Rightarrow> path list" where
  "walkMetadataFiles dir (Dir es) =
     concat (map (\<lambda>(item, c).
                    case c of
                      Dir cs \<Rightarrow> walkMetadataFiles (dir @ [item]) c
                    | File b \<Rightarrow> if endsWith item ''.json'' then [dir @ [item]] else []) es)"
| "walkMetadataFiles dir (File b) = []"

definition findMetadataFiles :: "node \<Rightarrow> path \<Rightarrow> error + path list" where
  "findMetadataFiles fs dir =
     (case stat fs dir of
        Inl e \<Rightarrow> Inl e
      | Inr (File b) \<Rightarrow> Inl (Error ''ENOTDIR'')
      | Inr (Dir es) \<Rightarrow> Inr (walkMetadataFiles dir (Dir es)))"

record list_options =
  opt_prefix :: "string option"
  opt_limit :: "int option"

record list_entry =
  le_key :: string
  le_size :: "json option"
  le_etag :: "json option"
  le_contentType :: "json option"

record list_page =
  lp_objects :: "list_entry list"
  lp_isTruncated :: bool
  lp_provider :: string

text \<open>
  The body of the loop of \<^verbatim>\<open>list\<close> for one sidecar: \<open>None\<close> when the sidecar is passed
  over, by \<^verbatim>\<open>continue\<close> (the prefix does not match) or by the inner \<^verbatim>\<open>catch\<close> (it cannot
  be read or parsed, its \<^verbatim>\<open>key\<close> is not a string, so that \<^verbatim>\<open>startsWith\<close> or
  \<^verbatim>\<open>replace\<close> throws, or its content file is missing).
\<close>

definition list_entry_of ::
  "platform \<Rightarrow> local_provider \<Rightarrow> list_options \<Rightarrow> node \<Rightarrow> path \<Rightarrow> list_entry option" where
  "list_entry_of env prov opts fs metadataFile =
     (case readFile fs metadataFile of
        Inl e \<Rightarrow> None
      | Inr text \<Rightarrow>
          (case parse env text of
             None \<Rightarrow> None
           | Some metadata \<Rightarrow>
               (case js_get metadata ''key'' of
                  Some (JStr key) \<Rightarrow>
                    if (case opt_prefix opts of
                          None \<Rightarrow> False
                        | Some pre \<Rightarrow> pre \<noteq> [] \<and> \<not> startsWith key pre)
                    then None
                    else (case stat fs (getFilePath prov key) of
                            Inl e \<Rightarrow> None
                          | Inr stats \<Rightarrow>
                              Some \<lparr>le_key = key,
                                    le_size = js_get metadata ''size'',
                                    le_etag = js_get metadata ''hash'',
                                    le_contentType = js_get metadata ''contentType''\<rparr>)
                | _ \<Rightarrow> None)))"

text \<open>The \<^verbatim>\<open>for ... of\<close> loop of \<^verbatim>\<open>list\<close>, with its \<^verbatim>\<open>count\<close> and \<^verbatim>\<open>objects\<close>.\<close>

fun list_loop ::
  "(path \<Rightarrow> list_entry option) \<Rightarrow> int \<Rightarrow> path list \<Rightarrow> int \<Rightarrow> list_entry list
     \<Rightarrow> int \<times> list_entry list" where
  "list_loop entry limit [] count objects = (count, objects)"
| "list_loop entry limit (f # fs) count objects =
     (if count \<ge> limit then (count, objects)
      else (case entry f of
              None \<Rightarrow> list_loop entry limit fs count objects
            | Some e \<Rightarrow> list_loop entry limit fs (count + 1) (objects @ [e])))"

text \<open>
  \<^verbatim>\<open>objects.sort((a, b) => a.key.localeCompare(b.key))\<close>: the sort is stable, and for a
  comparator that is a total preorder its result is the one of this insertion sort.
\<close>

fun insert_by_key :: "(string \<Rightarrow> string \<Rightarrow> int) \<Rightarrow> list_entry \<Rightarrow> list_entry list \<Rightarrow> list_entry list" where
  "insert_by_key cmp x [] = [x]"
| "insert_by_key cmp x (y # ys) =
     (if cmp (le_key x) (le_key y) \<le> 0 then x # y # ys else y # insert_by_key cmp x ys)"

definition sort_by_key :: "(string \<Rightarrow> string \<Rightarrow> int) \<Rightarrow> list_entry list \<Rightarrow> list_entry list" where
  "sort_by_key cmp xs = foldr (insert_by_key cmp) xs []"

text \<open>\<^verbatim>\<open>options.limit || 1000\<close>: a limit that is missing or 0 is replaced.\<close>

definition effective_limit :: "list_options \<Rightarrow> int" where
  "effective_limit opts =
     (case opt_limit opts of None \<Rightarrow> 1000 | Some l \<Rightarrow> if l = 0 then 1000 else l)"

definition local_list :: "platform \<Rightarrow> local_provider \<Rightarrow> list_options \<Rightarrow> node \<Rightarrow> error + list_page" where
  "local_list env prov opts fs =
     (case findMetadataFiles fs (metadataPath prov) of
        Inl e \<Rightarrow> Inl (wrap ''Local storage list failed'' e)
      | Inr metadataFiles \<Rightarrow>
          (let limit = effective_limit opts;
               (count, objects) =
                  list_loop (list_entry_of env prov opts fs) limit metadataFiles 0 []
           in Inr \<lparr>lp_objects = sort_by_key (localeCompare env) objects,
                   lp_isTruncated = (count \<ge> limit),
                   lp_provider = provider_name\<rparr>))"

record delete_result =
  del_success :: bool
  del_key :: string
  del_provider :: string

definition local_delete :: "local_provider \<Rightarrow> string \<Rightarrow> node \<Rightarrow> (error + delete_result) \<times> node" where
  "local_delete prov key fs =
     (let filePath = getFilePath prov key;
          metadataFile = getMetadataPath prov key;
          failed = (\<lambda>e. Inl (wrap ''Local storage delete failed'' e))
      in case remove filePath fs of
           Inl e \<Rightarrow> (failed e, fs)
         | Inr fs1 \<Rightarrow>
             (case remove metadataFile fs1 of
                Inl e \<Rightarrow> (failed e, fs1)
              | Inr fs2 \<Rightarrow>
                  (Inr \<lparr>del_success = True, del_key = key, del_provider = provider_name\<rparr>, fs2)))"

text \<open>\<^verbatim>\<open>exists\<close>: \<^verbatim>\<open>fs.pathExists\<close> never throws, so the \<^verbatim>\<open>catch\<close> is never entered.\<close>

definition local_exists :: "local_provider \<Rightarrow> string \<Rightarrow> node \<Rightarrow> error + bool" where
  "local_exists prov key fs = Inr (pathExists fs (getFilePath prov key))"

record copy_result =
  cp_success :: bool
  cp_sourceKey :: string
  cp_destinationKey :: string
  cp_provider :: string

text \<open>\<^verbatim>\<open>{...sourceMetadata, key: destinationKey, uploadTime: new Date().toISOString()}\<close>\<close>

definition destinationMetadata :: "json \<Rightarrow> string \<Rightarrow> string \<Rightarrow> json" where
  "destinationMetadata sourceMetadata destinationKey now =
     JObj (fmupd ''uploadTime'' (JStr now) (fmupd ''key'' (JStr destinationKey) (spread sourceMetadata)))"

definition local_copy ::
  "platform \<Rightarrow> local_provider \<Rightarrow> clock \<Rightarrow> string \<Rightarrow> string \<Rightarrow> node
     \<Rightarrow> (error + copy_result) \<times> node" where
  "local_copy env prov clk sourceKey destinationKey fs =
     (let sourceFilePath = getFilePath prov sourceKey;
          destinationFilePath = getFilePath prov destinationKey;
          sourceMetadataPath = getMetadataPath prov sourceKey;
          destinationMetadataPath = getMetadataPath prov destinationKey;
          failed = (\<lambda>e. Inl (wrap ''Local storage copy failed'' e))
      in if \<not> pathExists fs sourceFilePath
         then (failed (Error (''Source object '' @ quoted sourceKey @ '' not found'')), fs)
         else (case ensureDir (dirname destinationFilePath) fs of
                 Inl e \<Rightarrow> (failed e, fs)
               | Inr fs1 \<Rightarrow>
                   (case copy sourceFilePath destinationFilePath fs1 of
                      Inl e \<Rightarrow> (failed e, fs1)
                    | Inr fs2 \<Rightarrow>
                        (case readFile fs2 sourceMetadataPath of
                           Inl e \<Rightarrow> (failed e, fs2)
                         | Inr text \<Rightarrow>
                             (case parse env text of
                                None \<Rightarrow> (failed (Error ''SyntaxError''), fs2)
                              | Some sourceMetadata \<Rightarrow>
                                  (case writeFile destinationMetadataPath
                                          (stringify env
                                             (destinationMetadata sourceMetadata destinationKey
                                                (isoNow clk)))
                                          fs2 of
                                     Inl e \<Rightarrow> (failed e, fs2)
                                   | Inr fs3 \<Rightarrow>
                                       (Inr \<lparr>cp_success = True, cp_sourceKey = sourceKey,
                                             cp_destinationKey = destinationKey,
                                             cp_provider = provider_name\<rparr>, fs3)))))))"

section \<open>The Azure provider's \<^verbatim>\<open>delete\<close> and \<^verbatim>\<open>exists\<close> (\<^verbatim>\<open>src/providers/azure.js\<close>)\<close>





section \<open>The base provider (\<^verbatim>\<open>src/providers/base.js\<close>)\<close>

record health =
  h_status :: string
  h_provider :: string
  h_error :: "string option"
  h_timestamp :: string

text \<open>
  \<^verbatim>\<open>getHealth\<close> is written once, over the provider's own \<^verbatim>\<open>list\<close> and \<^verbatim>\<open>name\<close>, which
  are its parameters here; \<open>now\<close> is \<^verbatim>\<open>new Date().toISOString()\<close>.
\<close>

definition getHealth ::
  "(list_options \<Rightarrow> 's \<Rightarrow> error + 'page) \<Rightarrow> string \<Rightarrow> string \<Rightarrow> 's \<Rightarrow> error + health" where
  "getHealth list_fn name now st =
     (case list_fn \<lparr>opt_prefix = None, opt_limit = Some 1\<rparr> st of
        Inr page \<Rightarrow>
          Inr \<lparr>h_status = ''healthy'', h_provider = name, h_error = None, h_timestamp = now\<rparr>
      | Inl e \<Rightarrow>
          Inr \<lparr>h_status = ''unhealthy'', h_provider = name, h_error = Some (message e),
                h_timestamp = now\<rparr>)"

text \<open>
  \<^verbatim>\<open>generateTestKey\<close>: the pair is what this call reads from \<^verbatim>\<open>Date.now()\<close> and from
  \<^verbatim>\<open>Math.random().toString(36).substring(2, 8)\<close>.
\<close>

definition generateTestKey :: "string \<Rightarrow> nat \<times> string \<Rightarrow> string" where
  "generateTestKey pre draw = pre @ ''-'' @ show_nat (fst draw) @ ''-'' @ snd draw"

section \<open>The provider factory (\<^verbatim>\<open>src/providers/factory.js\<close>)\<close>

datatype provider_class =
  AWSStorageProvider | GCPStorageProvider | AzureStorageProvider | MinioStorageProvider
  | LocalStorageProvider

definition providers :: "(string \<times> provider_class) list" where
  "providers =
     [(''aws'', AWSStorageProvider), (''gcp'', GCPStorageProvider),
      (''azure'', AzureStorageProvider), (''minio'', MinioStorageProvider),
      (''local'', LocalStorageProvider)]"

text \<open>
  \<^verbatim>\<open>providers\<close> is an object literal, so \<^verbatim>\<open>providers[name]\<close> also finds what the
  literal inherits from \<^verbatim>\<open>Object.prototype\<close>: these properties, each a function or an
  object and so truthy.
\<close>

definition object_prototype :: "string list" where
  "object_prototype =
     [''constructor'', ''__defineGetter__'', ''__defineSetter__'', ''hasOwnProperty'',
      ''__lookupGetter__'', ''__lookupSetter__'', ''isPrototypeOf'', ''propertyIsEnumerable'',
      ''toString'', ''valueOf'', ''__proto__'', ''toLocaleString'']"

datatype property = Class provider_class | Inherited string

definition providers_get :: "string \<Rightarrow> property option" where
  "providers_get name =
     (case map_of providers name of
        Some c \<Rightarrow> Some (Class c)
      | None \<Rightarrow> if name \<in> set object_prototype then Some (Inherited name) else None)"

text \<open>\<^verbatim>\<open>toLowerCase\<close> on code units below 256: the ASCII and the Latin-1 capitals.\<close>

definition lower_table :: "(char \<times> char) list" where
  "lower_table =
     zip (''ABCDEFGHIJKLMNOPQRSTUVWXYZ'' @
      [CHR 0xC0, CHR 0xC1, CHR 0xC2, CHR 0xC3, CHR 0xC4, CHR 0xC5, CHR 0xC6, CHR 0xC7,
      CHR 0xC8, CHR 0xC9, CHR 0xCA, CHR 0xCB, CHR 0xCC, CHR 0xCD, CHR 0xCE, CHR 0xCF,
      CHR 0xD0, CHR 0xD1, CHR 0xD2, CHR 0xD3, CHR 0xD4, CHR 0xD5, CHR 0xD6, CHR 0xD8,
      CHR 0xD9, CHR 0xDA, CHR 0xDB, CHR 0xDC, CHR 0xDD, CHR 0xDE])
     (''abcdefghijklmnopqrstuvwxyz'' @
      [CHR 0xE0, CHR 0xE1, CHR 0xE2, CHR 0xE3, CHR 0xE4, CHR 0xE5, CHR 0xE6, CHR 0xE7,
      CHR 0xE8, CHR 0xE9, CHR 0xEA, CHR 0xEB, CHR 0xEC, CHR 0xED, CHR 0xEE, CHR 0xEF,
      CHR 0xF0, CHR 0xF1, CHR 0xF2, CHR 0xF3, CHR 0xF4, CHR 0xF5, CHR 0xF6, CHR 0xF8,
      CHR 0xF9, CHR 0xFA, CHR 0xFB, CHR 0xFC, CHR 0xFD, CHR 0xFE])"

definition toLowerCase :: "string \<Rightarrow> string" where
  "toLowerCase s = map (\<lambda>c. case map_of lower_table c of None \<Rightarrow> c | Some l \<Rightarrow> l) s"

fun join :: "string \<Rightarrow> string list \<Rightarrow> string" where
  "join sep [] = []"
| "join sep [x] = x"
| "join sep (x # y # ys) = x @ sep @ join sep (y # ys)"

text \<open>
  The \<open>config\<close> argument is \<open>None\<close> when it is \<^verbatim>\<open>null\<close> or \<^verbatim>\<open>undefined\<close>.  What
  \<^verbatim>\<open>new ProviderClass(config)\<close> yields is an instance of a provider class, whose
  constructor reads a property of \<open>config\<close> (\<^verbatim>\<open>basePath\<close>, \<^verbatim>\<open>bucket\<close>,
  \<^verbatim>\<open>containerName\<close>) and so throws a TypeError when there is none; or, for the inherited
  \<^verbatim>\<open>constructor\<close> (which is \<^verbatim>\<open>Object\<close>), \<^verbatim>\<open>new Object(config)\<close>, which is the
  configuration object itself, and an empty object when there is none.  No other
  inherited property can be called with \<^verbatim>\<open>new\<close>.  \<^verbatim>\<open>minio.js\<close> is not among the sources;
  its constructor is taken to read its configuration as the other four do.
\<close>

datatype 'c created = Provider provider_class 'c | PlainObject "'c option"

definition create :: "string \<Rightarrow> 'c option \<Rightarrow> error + 'c created" where
  "create providerName config =
     (case providers_get (toLowerCase providerName) of
        None \<Rightarrow>
          Inl (Error (''Unknown storage provider: '' @ providerName
                      @ ''. Available providers: '' @ join '', '' (map fst providers)))
      | Some (Class c) \<Rightarrow>
          (case config of
             None \<Rightarrow> Inl (Error ''TypeError'')
           | Some cfg \<Rightarrow> Inr (Provider c cfg))
      | Some (Inherited n) \<Rightarrow>
          if n = ''constructor'' then Inr (PlainObject config)
          else Inl (Error ''ProviderClass is not a constructor''))"

definition getAvailableProviders :: "string list" where
  "getAvailableProviders = [''aws'', ''gcp'', ''azure'', ''minio'', ''local'']"

text \<open>
  \<^verbatim>\<open>createAndInitialize\<close>; \<open>initialize\<close> is the created provider's method, and a plain
  object has none.
\<close>

definition createAndInitialize ::
  "(provider_class \<Rightarrow> 'c \<Rightarrow> 'w \<Rightarrow> (error + unit) \<times> 'w) \<Rightarrow> string \<Rightarrow> 'c option \<Rightarrow> 'w
     \<Rightarrow> (error + 'c created) \<times> 'w" where
  "createAndInitialize initialize providerName config w =
     (case create providerName config of
        Inl e \<Rightarrow> (Inl e, w)
      | Inr (PlainObject c) \<Rightarrow> (Inl (Error ''provider.initialize is not a function''), w)
      | Inr (Provider cls c) \<Rightarrow>
          (case initialize cls c w of
             (Inl e, w') \<Rightarrow> (Inl e, w')
           | (Inr u, w') \<Rightarrow> (Inr (Provider cls c), w')))"

section \<open>The test runner (\<^verbatim>\<open>src/tests/runner.js\<close>)\<close>

text \<open>
  A test is a method of the runner: run in a world \<open>'w\<close> (the provider's storage and the
  runner's own fields), it throws or returns its metrics.  \<open>testResult.tests\<close> is an object
  keyed by test name, kept here in insertion order.
\<close>

record 'm test_record =
  t_status :: string
  t_error :: "string option"
  t_metrics :: "'m option"

type_synonym ('w, 'm) test = "'w \<Rightarrow> (error + 'm) \<times> 'w"

text \<open>
  The loop the three suites share, \<^verbatim>\<open>for (const test of tests) { try ... catch ... }\<close>;
  only the performance suite keeps the returned metrics.
\<close>

fun run_tests ::
  "bool \<Rightarrow> (string \<times> ('w, 'm) test) list \<Rightarrow> (string \<times> 'm test_record) list \<Rightarrow> 'w
     \<Rightarrow> (string \<times> 'm test_record) list \<times> 'w" where
  "run_tests keep [] tests w = (tests, w)"
| "run_tests keep ((name, fn) # rest) tests w =
     (case fn w of
        (Inr result, w') \<Rightarrow>
          run_tests keep rest
            (AList.update name
               \<lparr>t_status = ''passed'', t_error = None,
                t_metrics = (if keep then Some result else None)\<rparr> tests) w'
      | (Inl e, w') \<Rightarrow>
          run_tests keep rest
            (AList.update name
               \<lparr>t_status = ''failed'', t_error = Some (message e), t_metrics = None\<rparr> tests) w')"

text \<open>
  The suites' tables.  \<open>methods\<close> gives the runner's test methods by name, each applied to
  the provider.
\<close>

definition basic_tests :: "(string \<times> string) list" where
  "basic_tests =
     [(''Health Check'', ''testHealth''), (''Upload File'', ''testUpload''),
      (''Download File'', ''testDownload''), (''List Objects'', ''testList''),
      (''Get Metadata'', ''testMetadata''), (''Object Exists'', ''testExists''),
      (''Delete Object'', ''testDelete'')]"

definition performance_tests :: "(string \<times> string) list" where
  "performance_tests =
     [(''Upload Speed'', ''testUploadSpeed''), (''Download Speed'', ''testDownloadSpeed''),
      (''Concurrent Uploads'', ''testConcurrentUploads''),
      (''Large File Handling'', ''testLargeFile'')]"

definition security_tests :: "(string \<times> string) list" where
  "security_tests =
     [(''Signed URL Generation'', ''testSignedUrl''), (''Access Control'', ''testAccessControl''),
      (''Metadata Security'', ''testMetadataSecurity'')]"

definition bind_tests ::
  "(string \<Rightarrow> 'p \<Rightarrow> ('w, 'm) test) \<Rightarrow> 'p \<Rightarrow> (string \<times> string) list
     \<Rightarrow> (string \<times> ('w, 'm) test) list" where
  "bind_tests methods provider table = map (\<lambda>(name, m). (name, methods m provider)) table"

definition runBasicTests ::
  "(string \<Rightarrow> 'p \<Rightarrow> ('w, 'm) test) \<Rightarrow> 'p \<Rightarrow> (string \<times> 'm test_record) list \<Rightarrow> 'w
     \<Rightarrow> (string \<times> 'm test_record) list \<times> 'w" where
  "runBasicTests methods provider tests w =
     run_tests False (bind_tests methods provider basic_tests) tests w"

definition runPerformanceTests ::
  "(string \<Rightarrow> 'p \<Rightarrow> ('w, 'm) test) \<Rightarrow> 'p \<Rightarrow> (string \<times> 'm test_record) list \<Rightarrow> 'w
     \<Rightarrow> (string \<times> 'm test_record) list \<times> 'w" where
  "runPerformanceTests methods provider tests w =
     run_tests True (bind_tests methods provider performance_tests) tests w"

definition runSecurityTests ::
  "(string \<Rightarrow> 'p \<Rightarrow> ('w, 'm) test) \<Rightarrow> 'p \<Rightarrow> (string \<times> 'm test_record) list \<Rightarrow> 'w
     \<Rightarrow> (string \<times> 'm test_record) list \<times> 'w" where
  "runSecurityTests methods provider tests w =
     run_tests False (bind_tests methods provider security_tests) tests w"

record 'm provider_result =
  pr_provider :: string
  pr_tests :: "(string \<times> 'm test_record) list"
  pr_overall :: string
  pr_passRate :: "string option"
  pr_error :: "string option"

text \<open>The record the \<^verbatim>\<open>catch\<close> of \<^verbatim>\<open>testProvider\<close> pushes.\<close>

definition error_result :: "string \<Rightarrow> error \<Rightarrow> 'm provider_result" where
  "error_result providerName e =
     \<lparr>pr_provider = providerName, pr_tests = [], pr_overall = ''error'', pr_passRate = None,
      pr_error = Some (message e)\<rparr>"

text \<open>The \<^verbatim>\<open>switch (testType)\<close>, whose default is the basic suite.\<close>

definition run_suite ::
  "string \<Rightarrow> (string \<Rightarrow> 'p \<Rightarrow> ('w, 'm) test) \<Rightarrow> 'p \<Rightarrow> 'w \<Rightarrow> (string \<times> 'm test_record) list \<times> 'w" where
  "run_suite testType methods provider w =
     (if testType = ''basic'' then runBasicTests methods provider [] w
      else if testType = ''performance'' then runPerformanceTests methods provider [] w
      else if testType = ''security'' then runSecurityTests methods provider [] w
      else runBasicTests methods provider [] w)"

text \<open>
  \<^verbatim>\<open>testProvider\<close>, from \<open>this.results\<close> to \<open>this.results\<close>.  \<open>getProvider\<close> is
  \<^verbatim>\<open>this.config.getProvider\<close>, which throws or returns a truthy configuration;
  \<open>initialize\<close> and \<open>cleanup\<close> are the provider's methods.
\<close>

definition testProvider ::
  "(string \<Rightarrow> error + 'c) \<Rightarrow> (provider_class \<Rightarrow> 'c \<Rightarrow> 'w \<Rightarrow> (error + unit) \<times> 'w)
     \<Rightarrow> ('c created \<Rightarrow> 'w \<Rightarrow> (error + unit) \<times> 'w)
     \<Rightarrow> (string \<Rightarrow> 'c created \<Rightarrow> ('w, 'm) test)
     \<Rightarrow> string \<Rightarrow> string \<Rightarrow> 'm provider_result list \<Rightarrow> 'w
     \<Rightarrow> 'm provider_result list \<times> 'w" where
  "testProvider getProvider initialize cleanup methods providerName testType results w =
     (case getProvider providerName of
        Inl e \<Rightarrow> (results @ [error_result providerName e], w)
      | Inr providerConfig \<Rightarrow>
          (case createAndInitialize initialize providerName (Some providerConfig) w of
             (Inl e, w1) \<Rightarrow> (results @ [error_result providerName e], w1)
           | (Inr provider, w1) \<Rightarrow>
               (let (tests, w2) = run_suite testType methods provider w1;
                    testResults = map snd tests;
                    passed = length (filter (\<lambda>r. t_status r = ''passed'') testResults);
                    total = length testResults;
                    testResult =
                      \<lparr>pr_provider = providerName, pr_tests = tests,
                       pr_overall = (if passed = total then ''passed'' else ''failed''),
                       pr_passRate = Some (show_nat passed @ ''/'' @ show_nat total),
                       pr_error = None\<rparr>
                in case cleanup provider w2 of
                     (Inl e, w3) \<Rightarrow> (results @ [testResult, error_result providerName e], w3)
                   | (Inr u, w3) \<Rightarrow> (results @ [testResult], w3))))"

subsection \<open>The concurrent-upload test, against the local provider\<close>

text \<open>
  The uploads are started one after the other by \<^verbatim>\<open>Array.from\<close> and awaited together;
  they act on different files, and are run here in the order they are started.
  \<^verbatim>\<open>Promise.all\<close> rejects with a rejection of one of them, here the first in that order,
  when every upload has been started.
\<close>

fun upload_each ::
  "platform \<Rightarrow> local_provider \<Rightarrow> clock \<Rightarrow> upload_data \<Rightarrow> string list \<Rightarrow> node
     \<Rightarrow> (error + upload_result) list \<times> node" where
  "upload_each env prov clk data [] fs = ([], fs)"
| "upload_each env prov clk data (k # ks) fs =
     (case local_upload env prov clk k data \<lparr>opt_contentType = None, opt_metadata = None\<rparr> fs of
        (r, fs1) \<Rightarrow>
          (case upload_each env prov clk data ks fs1 of (rs, fs2) \<Rightarrow> (r # rs, fs2)))"

fun first_rejection :: "(error + 'a) list \<Rightarrow> error option" where
  "first_rejection [] = None"
| "first_rejection (Inl e # rs) = Some e"
| "first_rejection (Inr r # rs) = first_rejection rs"

text \<open>The cleanup loop: an error of \<^verbatim>\<open>delete\<close> is caught and ignored.\<close>

definition delete_each :: "local_provider \<Rightarrow> string list \<Rightarrow> node \<Rightarrow> node" where
  "delete_each prov keys fs = fold (\<lambda>k fs'. snd (local_delete prov k fs')) keys fs"

text \<open>
  \<open>draws i\<close> is what the \<open>i\<close>-th call of \<^verbatim>\<open>generateTestKey\<close> in the test reads from the
  clock and the random generator: calls 0 to 4 name the uploads, calls 5 to 9 are made by
  the cleanup loop.
\<close>

definition testConcurrentUploads ::
  "platform \<Rightarrow> local_provider \<Rightarrow> clock \<Rightarrow> (nat \<Rightarrow> nat \<times> string) \<Rightarrow> node
     \<Rightarrow> (error + (string \<times> string) list) \<times> node" where
  "testConcurrentUploads env prov clk draws fs =
     (let concurrency = 5;
          testData = Str ''Concurrent test data'';
          uploadKeys =
            map (\<lambda>i. generateTestKey (''concurrent-'' @ show_nat i) (draws i)) [0..<concurrency]
      in case upload_each env prov clk testData uploadKeys fs of
           (results, fs1) \<Rightarrow>
             (case first_rejection results of
                Some e \<Rightarrow> (Inl e, fs1)
              | None \<Rightarrow>
                  (let successful =
                         length (filter (\<lambda>r. case r of Inr u \<Rightarrow> up_success u | Inl e \<Rightarrow> False)
                                   results);
                       cleanupKeys =
                         map (\<lambda>i. generateTestKey (''concurrent-'' @ show_nat i)
                                     (draws (concurrency + i))) [0..<concurrency];
                       fs2 = delete_each prov cleanupKeys fs1
                   in (Inr [(''successful'', show_nat successful @ ''/'' @ show_nat concurrency),
                            (''time'', show_nat (nat (endTime clk - startTime clk)) @ ''ms'')],
                       fs2))))"

section \<open>Notions and instances used to state the properties\<close>

text \<open>
  The outcome of each test of a table when every test is run in turn, each in the world
  left by the one before it, whether that one threw or not.
\<close>

fun outcomes_in_turn :: "(string \<times> ('w, 'm) test) list \<Rightarrow> 'w \<Rightarrow> (string \<times> (error + 'm)) list" where
  "outcomes_in_turn [] w = []"
| "outcomes_in_turn ((name, fn) # rest) w =
     (name, fst (fn w)) # outcomes_in_turn rest (snd (fn w))"

text \<open>The record of one outcome: \<^verbatim>\<open>passed\<close> for a return, \<^verbatim>\<open>failed\<close> with the message for a throw.\<close>

definition record_of :: "bool \<Rightarrow> error + 'm \<Rightarrow> 'm test_record" where
  "record_of keep out =
     (case out of
        Inr result \<Rightarrow> \<lparr>t_status = ''passed'', t_error = None,
                        t_metrics = (if keep then Some result else None)\<rparr>
      | Inl e \<Rightarrow> \<lparr>t_status = ''failed'', t_error = Some (message e), t_metrics = None\<rparr>)"

text \<open>The suite a test type selects: whether metrics are kept, and the table.\<close>

definition suite_of :: "string \<Rightarrow> bool \<times> (string \<times> string) list" where
  "suite_of testType =
     (if testType = ''performance'' then (True, performance_tests)
      else if testType = ''security'' then (False, security_tests)
      else (False, basic_tests))"

text \<open>
  A platform to run the providers on: paths resolve against \<^verbatim>\<open>/home\<close>, and the JSON codec
  is an injective coding of values as texts, so that parsing undoes printing.
\<close>

definition sample_platform :: platform where
  "sample_platform =
     \<lparr>resolve = (\<lambda>s. if s = [] then None
                      else Some (path_join (if hd s = CHR ''/'' then [] else [''home'']) s)),
      md5hex = (\<lambda>b. ''md5-of-'' @ b),
      stringify = (\<lambda>j. replicate (to_nat j) CHR ''j''),
      parse = (\<lambda>b. Some (from_nat (length b))),
      mimeLookup = (\<lambda>s. None),
      localeCompare = (\<lambda>a b. if a < b then - 1 else if a = b then 0 else 1),
      dirSize = 4096\<rparr>"

definition sample_provider :: local_provider where
  "sample_provider =
     \<lparr>prov_config = JObj (fmap_of_list [(''basePath'', JStr ''/store'')]), basePath = [''store'']\<rparr>"

definition sample_clock :: clock where
  "sample_clock = \<lparr>startTime = 100, isoNow = ''2024-01-01T00:00:00.000Z'', endTime = 103\<rparr>"

definition no_options :: upload_options where
  "no_options = \<lparr>opt_contentType = None, opt_metadata = None\<rparr>"

text \<open>The file system right after \<^verbatim>\<open>initialize\<close>: the base directory with an empty metadata directory.\<close>

definition fresh_store :: node where
  "fresh_store = Dir [(''store'', Dir [(''.metadata'', Dir [])])]"

text \<open>Test methods of which \<^verbatim>\<open>testUpload\<close> throws and every other returns.\<close>

definition sample_methods :: "string \<Rightarrow> unit created \<Rightarrow> (unit, unit) test" where
  "sample_methods m provider w =
     (if m = ''testUpload'' then (Inl (Error ''Upload failed''), w) else (Inr (), w))"


text \<open>The same store with the sidecar missing, and with the content file missing.\<close>

definition orphan_content_store :: node where
  "orphan_content_store = Dir [(''store'', Dir [(''.metadata'', Dir []), (''a.txt'', File ''hello'')])]"

definition orphan_sidecar_store :: node where
  "orphan_sidecar_store =
     Dir [(''store'',
           Dir [(''.metadata'',
                 Dir [(''a.txt.json'',
                       File (stringify sample_platform
                               (sidecar ''a.txt'' 5 ''application/octet-stream'' ''md5-of-hello''
                                  ''2024-01-01T00:00:00.000Z'' (JObj fmempty))))])])]"

text \<open>
  Draws of \<^verbatim>\<open>Date.now()\<close> and \<^verbatim>\<open>Math.random()\<close> for the successive calls of
  \<^verbatim>\<open>generateTestKey\<close>: the clock stands still, and no two random suffixes are equal.
\<close>

definition sample_draws :: "nat \<Rightarrow> nat \<times> string" where
  "sample_draws i = (1000, ''r'' @ show_nat i)"

text \<open>
  The store of the sample provider holding, for each of the given keys, the content
  \<^verbatim>\<open>Concurrent test data\<close> and its sidecar.
\<close>

definition store_holding :: "string list \<Rightarrow> node" where
  "store_holding keys =
     Dir [(''store'',
           Dir ((''.metadata'',
                 Dir (map (\<lambda>k. (k @ ''.json'',
                                File (stringify sample_platform
                                        (sidecar k 20 ''application/octet-stream''
                                           ''md5-of-Concurrent test data''
                                           ''2024-01-01T00:00:00.000Z'' (JObj fmempty))))) keys))
                # map (\<lambda>k. (k, File ''Concurrent test data'')) keys))]"

text \<open>
  A store in which the key \<^verbatim>\<open>../.metadata/t\<close> has been uploaded: its content lies outside
  the base directory, and its sidecar is the file that is also the sidecar of the key \<^verbatim>\<open>t\<close>.
\<close>

definition shared_sidecar_store :: node where
  "shared_sidecar_store =
     Dir [(''store'',
           Dir [(''.metadata'',
                 Dir [(''t.json'',
                       File (stringify sample_platform
                               (sidecar ''../.metadata/t'' 5 ''application/octet-stream''
                                  ''md5-of-hello'' ''2024-01-01T00:00:00.000Z'' (JObj fmempty))))])]),
          (''.metadata'', Dir [(''t'', File ''hello'')])]"

text \<open>The store with one object after that object has been copied to the key \<^verbatim>\<open>b.txt\<close>.\<close>

definition copied_store :: node where
  "copied_store =
     Dir [(''store'',
           Dir [(''.metadata'',
                 Dir [(''a.txt.json'',
                       File (stringify sample_platform
                               (sidecar ''a.txt'' 5 ''application/octet-stream'' ''md5-of-hello''
                                  ''2024-01-01T00:00:00.000Z'' (JObj fmempty)))),
                      (''b.txt.json'',
                       File (stringify sample_platform
                               (destinationMetadata
                                  (sidecar ''a.txt'' 5 ''application/octet-stream'' ''md5-of-hello''
                                     ''2024-01-01T00:00:00.000Z'' (JObj fmempty))
                                  ''b.txt'' ''2024-01-01T00:00:00.000Z'')))]),
                (''a.txt'', File ''hello''),
                (''b.txt'', File ''hello'')])]"

section \<open>Lemmas on the file system\<close>

lemma names_no_slash: "\<not> slash p \<Longrightarrow> names p = p"
  by (simp add: names_def)

lemma names_slash: "slash p \<Longrightarrow> p = names p @ [[]]"
  by (auto simp: names_def slash_def dest: append_butlast_last_id)

lemma map_of_update: "map_of (AList.update k v al) k' = (if k' = k then Some v else map_of al k')"
  by (simp add: update_conv')

lemma map_of_filter_fst:
  "map_of (filter (\<lambda>e. fst e \<noteq> s) es) n = (if n = s then None else map_of es n)"
  by (induction es) auto

lemma lookup_put_same: "put p n t = Some t' \<Longrightarrow> lookup t' p = Some n"
proof (induction p arbitrary: t t')
  case Nil
  then show ?case by simp
next
  case (Cons s p)
  then show ?case
    by (cases t) (auto simp: map_of_update split: option.splits if_splits)
qed

lemma lookup_put_other:
  "put p n t = Some t' \<Longrightarrow> \<not> prefix p q \<Longrightarrow> \<not> prefix q p \<Longrightarrow> lookup t' q = lookup t q"
proof (induction p arbitrary: t t' q)
  case Nil
  then show ?case by simp
next
  case (Cons s p)
  then obtain es where t: "t = Dir es" by (cases t) auto
  from Cons.prems obtain s' q' where q: "q = s' # q'" by (cases q) auto
  show ?case
  proof (cases "s' = s")
    case False
    with Cons.prems t q show ?thesis
      by (auto simp: map_of_update split: option.splits if_splits)
  next
    case True
    with Cons.prems q have np: "\<not> prefix p q'" "\<not> prefix q' p" by auto
    show ?thesis
    proof (cases "map_of es s")
      case None
      with Cons.prems t np show ?thesis by (auto split: if_splits)
    next
      case (Some c)
      with Cons.prems t obtain c' where c': "put p n c = Some c'" "t' = Dir (AList.update s c' es)"
        by auto
      from Cons.IH[OF c'(1) np] show ?thesis
        using t q True Some c' by (simp add: map_of_update)
    qed
  qed
qed

lemma lookup_parent_dir:
  "lookup t (p @ s # r) = Some n \<Longrightarrow> \<exists>es. lookup t p = Some (Dir es)"
proof (induction p arbitrary: t)
  case Nil
  then show ?case by (cases t) auto
next
  case (Cons a p)
  then show ?case by (cases t) (auto split: option.splits)
qed

lemma lookup_strict_prefix_dir:
  assumes "lookup t q = Some n" "strict_prefix p q"
  shows "\<exists>es. lookup t p = Some (Dir es)"
proof -
  from assms(2) obtain s r where "q = p @ s # r"
    by (metis strict_prefixE' )
  with assms(1) show ?thesis using lookup_parent_dir by blast
qed


lemma put_ancestor_dir:
  "put p n t = Some t' \<Longrightarrow> strict_prefix q p \<Longrightarrow> \<exists>es. lookup t q = Some (Dir es)"
proof (induction p arbitrary: t t' q)
  case Nil
  then show ?case by simp
next
  case (Cons s p)
  then obtain es where t: "t = Dir es" by (cases t) auto
  show ?case
  proof (cases q)
    case Nil
    with t show ?thesis by simp
  next
    case (Cons s' q')
    with Cons.prems have s': "s' = s" and sp: "strict_prefix q' p" by auto
    then have "p \<noteq> []" by auto
    with Cons.prems t obtain c c' where "map_of es s = Some c" "put p n c = Some c'"
      by (auto split: option.splits if_splits)
    with Cons.IH[OF this(2) sp] show ?thesis using t Cons s' by simp
  qed
qed

text \<open>Blocked paths, and what \<^verbatim>\<open>stat\<close>, \<^verbatim>\<open>pathExists\<close> and \<^verbatim>\<open>readFile\<close> find.\<close>

lemma lookup_not_blocked: "lookup t p = Some n \<Longrightarrow> \<not> blocked t p"
  by (induction t p rule: blocked.induct) (auto split: option.splits)

lemma blocked_append: "blocked t p \<Longrightarrow> blocked t (p @ q)"
  by (induction t p rule: blocked.induct) (auto split: option.splits)

lemma blocked_below_file: "lookup t p = Some (File b) \<Longrightarrow> blocked t (p @ s # q)"
  by (induction t p rule: lookup.induct) (auto split: option.splits)

lemma blocked_snoc:
  "blocked t (p @ [s]) \<longleftrightarrow> blocked t p \<or> (\<exists>b. lookup t p = Some (File b))"
proof (induction p arbitrary: t)
  case Nil
  then show ?case by (cases t) (auto split: option.splits)
next
  case (Cons a p)
  then show ?case by (cases t) (auto split: option.splits)
qed

lemma blocked_names: "blocked t (names p) \<Longrightarrow> blocked t p"
  using blocked_append[of t "names p" "[[]]"] names_slash[of p] by (cases "slash p") (auto simp: names_def)

lemma blocked_slash:
  "slash p \<Longrightarrow> blocked t p \<longleftrightarrow> blocked t (names p) \<or> (\<exists>b. lookup t (names p) = Some (File b))"
  using blocked_snoc[of t "names p" "[]"] names_slash[of p] by simp

lemma blocked_iff: "blocked t q \<longleftrightarrow> (\<exists>r b. strict_prefix r q \<and> lookup t r = Some (File b))"
proof (induction t q rule: blocked.induct)
  case (1 t)
  then show ?case by simp
next
  case (2 b s p)
  have "strict_prefix [] (s # p)" by simp
  then show ?case by (metis blocked.simps(2) lookup.simps(1))
next
  case (3 es s p)
  show ?case
  proof (cases "map_of es s")
    case None
    have "\<not> (\<exists>r b. strict_prefix r (s # p) \<and> lookup (Dir es) r = Some (File b))"
    proof
      assume "\<exists>r b. strict_prefix r (s # p) \<and> lookup (Dir es) r = Some (File b)"
      then obtain r b where r: "strict_prefix r (s # p)" "lookup (Dir es) r = Some (File b)" by blast
      then show False using None by (cases r) auto
    qed
    with None show ?thesis by simp
  next
    case (Some c)
    have "(\<exists>r b. strict_prefix r (s # p) \<and> lookup (Dir es) r = Some (File b))
          \<longleftrightarrow> (\<exists>r b. strict_prefix r p \<and> lookup c r = Some (File b))"
    proof
      assume "\<exists>r b. strict_prefix r (s # p) \<and> lookup (Dir es) r = Some (File b)"
      then obtain r b where r: "strict_prefix r (s # p)" "lookup (Dir es) r = Some (File b)" by blast
      then obtain r' where "r = s # r'" "strict_prefix r' p" by (cases r) auto
      with r Some show "\<exists>r b. strict_prefix r p \<and> lookup c r = Some (File b)" by auto
    next
      assume "\<exists>r b. strict_prefix r p \<and> lookup c r = Some (File b)"
      then obtain r b where "strict_prefix r p" "lookup c r = Some (File b)" by blast
      with Some have "strict_prefix (s # r) (s # p) \<and> lookup (Dir es) (s # r) = Some (File b)" by simp
      then show "\<exists>r b. strict_prefix r (s # p) \<and> lookup (Dir es) r = Some (File b)" by blast
    qed
    with 3 Some show ?thesis by simp
  qed
qed

lemma stat_iff: "stat t p = Inr n \<longleftrightarrow> \<not> blocked t p \<and> lookup t (names p) = Some n"
  by (auto simp: stat_def split: option.splits)

lemma stat_file: "stat t p = Inr (File b) \<longleftrightarrow> \<not> slash p \<and> lookup t p = Some (File b)"
proof (cases "slash p")
  case True
  then show ?thesis using blocked_slash[of p t] by (auto simp: stat_iff)
next
  case False
  then show ?thesis by (auto simp: stat_iff names_def dest: lookup_not_blocked)
qed

lemma readFile_iff: "readFile t p = Inr b \<longleftrightarrow> \<not> slash p \<and> lookup t p = Some (File b)"
proof -
  have "readFile t p = Inr b \<longleftrightarrow> stat t p = Inr (File b)"
    by (auto simp: readFile_def split: sum.splits node.splits)
  then show ?thesis by (simp add: stat_file)
qed

lemma pathExists_iff: "pathExists t p \<longleftrightarrow> \<not> blocked t p \<and> lookup t (names p) \<noteq> None"
  by (auto simp: pathExists_def stat_def split: option.splits)

lemma pathExists_stat: "pathExists t p \<longleftrightarrow> (\<exists>n. stat t p = Inr n)"
  by (cases "stat t p") (simp_all add: pathExists_def)

lemma pathExists_lookup: "\<not> slash p \<Longrightarrow> pathExists t p \<longleftrightarrow> lookup t p \<noteq> None"
  by (auto simp: pathExists_iff names_def dest: lookup_not_blocked)

text \<open>Writing a file and making directories leave every other file as it was.\<close>

lemma writeFile_put: "writeFile p b t = Inr t' \<Longrightarrow> put p (File b) t = Some t'"
  by (auto simp: writeFile_def split: option.splits node.splits if_splits)

lemma writeFile_no_slash: "writeFile p b t = Inr t' \<Longrightarrow> \<not> slash p"
  by (auto simp: writeFile_def split: option.splits node.splits if_splits)

lemma writeFile_not_dir: "writeFile p b t = Inr t' \<Longrightarrow> lookup t p \<noteq> Some (Dir es)"
  by (auto simp: writeFile_def split: option.splits node.splits if_splits)

lemma writeFile_lookup_same: "writeFile p b t = Inr t' \<Longrightarrow> lookup t' p = Some (File b)"
  by (auto dest: writeFile_put lookup_put_same)

lemma writeFile_keeps_file:
  assumes w: "writeFile p b t = Inr t'" and ne: "q \<noteq> p" and f: "lookup t q = Some (File c)"
  shows "lookup t' q = Some (File c)"
proof -
  have "\<not> strict_prefix q p"
    using put_ancestor_dir[OF writeFile_put[OF w]] f by fastforce
  moreover have "\<not> strict_prefix p q"
    using lookup_strict_prefix_dir[OF f] writeFile_not_dir[OF w] by fastforce
  ultimately have "\<not> prefix p q" "\<not> prefix q p" using ne by (auto simp: strict_prefix_def)
  with lookup_put_other[OF writeFile_put[OF w]] f show ?thesis by simp
qed

lemma ensureDir_mkdirs: "ensureDir p t = Inr t' \<Longrightarrow> mkdirs (names p) t = Some t'"
  by (auto simp: ensureDir_def split: option.splits)

lemma mkdirs_keeps_file:
  "mkdirs p t = Some t' \<Longrightarrow> lookup t q = Some (File c) \<Longrightarrow> lookup t' q = Some (File c)"
proof (induction p arbitrary: t t' q)
  case Nil
  then show ?case by (cases t) auto
next
  case (Cons s p)
  then obtain es where t: "t = Dir es" by (cases t) auto
  from Cons.prems t obtain s' q' where q: "q = s' # q'" by (cases q) auto
  from Cons.prems t obtain c' where
    c': "mkdirs p (case map_of es s of None \<Rightarrow> Dir [] | Some c \<Rightarrow> c) = Some c'"
        "t' = Dir (AList.update s c' es)" by auto
  show ?case
  proof (cases "s' = s")
    case False
    with Cons.prems t q c' show ?thesis by (simp add: map_of_update)
  next
    case True
    with Cons.prems t q obtain ch where ch: "map_of es s = Some ch" "lookup ch q' = Some (File c)"
      by (auto split: option.splits)
    with c' have "mkdirs p ch = Some c'" by simp
    from Cons.IH[OF this ch(2)] show ?thesis using q True c' by (simp add: map_of_update)
  qed
qed

lemma ensureDir_keeps_file:
  "ensureDir p t = Inr t' \<Longrightarrow> lookup t q = Some (File c) \<Longrightarrow> lookup t' q = Some (File c)"
  by (auto dest: ensureDir_mkdirs mkdirs_keeps_file)





lemma lookup_rimraf_other:
  "rimraf p t = Inr t' \<Longrightarrow> \<not> prefix p q \<Longrightarrow> \<not> prefix q p \<Longrightarrow> lookup t' q = lookup t q"
proof (induction p t arbitrary: t' q rule: rimraf.induct)
  case (1 t)
  then show ?case by simp
next
  case (2 s p b)
  then show ?case by simp
next
  case (3 s es)
  then show ?case
    by (cases q) (auto simp: map_of_filter_fst)
next
  case (4 s v va es)
  from "4.prems" obtain a q' where q: "q = a # q'" by (cases q) auto
  show ?case
  proof (cases "map_of es s")
    case None
    with "4.prems" show ?thesis by auto
  next
    case (Some c)
    with "4.prems" obtain c' where c': "rimraf (v # va) c = Inr c'" "t' = Dir (AList.update s c' es)"
      by (auto split: sum.splits)
    show ?thesis
    proof (cases "a = s")
      case True
      with "4.prems" q have "\<not> prefix (v # va) q'" "\<not> prefix q' (v # va)" by auto
      from "4.IH"[OF Some c'(1) this] show ?thesis using q True Some c' by (simp add: map_of_update)
    next
      case False
      with c' q show ?thesis by (simp add: map_of_update)
    qed
  qed
qed

lemma remove_cases:
  assumes "remove p t = Inr t'"
  shows "\<not> blocked t p \<and> (lookup t (names p) = None \<and> t' = t \<or> rimraf (names p) t = Inr t')"
  using assms
  by (auto simp: remove_def stat_or_missing_def stat_def split: sum.splits option.splits if_splits)





lemma remove_keeps_file:
  assumes r: "remove p t = Inr t'" and np: "\<not> prefix (names p) q"
      and f: "lookup t q = Some (File c)"
  shows "lookup t' q = Some (File c)"
proof -
  from remove_cases[OF r] have nb: "\<not> blocked t p"
    and c: "t' = t \<or> rimraf (names p) t = Inr t'" by auto
  from c show ?thesis
  proof
    assume "t' = t" with f show ?thesis by simp
  next
    assume rr: "rimraf (names p) t = Inr t'"
    have "\<not> strict_prefix q (names p)"
    proof
      assume "strict_prefix q (names p)"
      with f have "blocked t (names p)" unfolding blocked_iff by blast
      with nb show False using blocked_names by blast
    qed
    moreover from np have "q \<noteq> names p" by auto
    ultimately have "\<not> prefix q (names p)" by (auto simp: strict_prefix_def)
    from lookup_rimraf_other[OF rr np this] f show ?thesis by simp
  qed
qed


text \<open>\<^verbatim>\<open>fs.copy\<close> writes at its destination only.\<close>

lemma copy_success:
  assumes "copy src dest t = Inr t'"
  shows "\<exists>s fs1. stat t src = Inr s
           \<and> (fs1 = t \<or> ensureDir (dirname dest) t = Inr fs1)
           \<and> ((\<exists>b. s = File b \<and> writeFile dest b fs1 = Inr t')
                \<or> (\<exists>n. put (names dest) n fs1 = Some t'))"
proof -
  obtain s d where c: "checkPaths src dest t = Inr (s, d)"
    using assms by (cases "checkPaths src dest t") (auto simp: copy_def)
  define r where "r = (if pathExists t (dirname dest) then Inr t else ensureDir (dirname dest) t)"
  from assms c obtain fs1 where r1: "r = Inr fs1" and
    p: "getStatsAndPerformCopy s d dest fs1 = Inr t'"
    unfolding r_def by (cases "if pathExists t (dirname dest) then Inr t else ensureDir (dirname dest) t")
      (simp_all add: copy_def)
  from r1 have e: "fs1 = t \<or> ensureDir (dirname dest) t = Inr fs1"
    unfolding r_def by (simp split: if_splits)
  from c have st: "stat t src = Inr s"
    by (simp add: checkPaths_def split: sum.splits option.splits if_splits)
  have w: "(\<exists>b. s = File b \<and> writeFile dest b fs1 = Inr t')
                \<or> (\<exists>n. put (names dest) n fs1 = Some t')"
  proof (cases s)
    case (File b)
    with p show ?thesis by (simp add: getStatsAndPerformCopy_def)
  next
    case (Dir ss)
    with p show ?thesis
      by (cases "overlay (Dir ss) d"; cases "put (names dest) (projr (overlay (Dir ss) d)) fs1")
         (auto simp: getStatsAndPerformCopy_def simp del: overlay.simps)
  qed
  from st e w show ?thesis by blast
qed

lemma copy_keeps_file:
  assumes cp: "copy src dest t = Inr t'" and f: "lookup t q = Some (File c)"
      and np: "\<not> prefix (names dest) q"
  shows "lookup t' q = Some (File c)"
proof -
  from copy_success[OF cp] obtain s fs1 where
    e: "fs1 = t \<or> ensureDir (dirname dest) t = Inr fs1" and
    w: "(\<exists>b. s = File b \<and> writeFile dest b fs1 = Inr t') \<or> (\<exists>n. put (names dest) n fs1 = Some t')"
    by blast
  from e f have f1: "lookup fs1 q = Some (File c)" by (auto dest: ensureDir_keeps_file)
  from w show ?thesis
  proof
    assume "\<exists>b. s = File b \<and> writeFile dest b fs1 = Inr t'"
    then obtain b where wf: "writeFile dest b fs1 = Inr t'" by blast
    from writeFile_no_slash[OF wf] np have "q \<noteq> dest" by (auto simp: names_def)
    from writeFile_keeps_file[OF wf this f1] show ?thesis .
  next
    assume "\<exists>n. put (names dest) n fs1 = Some t'"
    then obtain n where p: "put (names dest) n fs1 = Some t'" by blast
    have "\<not> strict_prefix q (names dest)" using put_ancestor_dir[OF p] f1 by fastforce
    with np have "\<not> prefix q (names dest)" by (auto simp: strict_prefix_def)
    from lookup_put_other[OF p np this] f1 show ?thesis by simp
  qed
qed

text \<open>The messages of the file system's errors start with one of three capitals.\<close>

lemma stat_error: "stat t p = Inl e \<Longrightarrow> hd (message e) \<in> set ''ESC''"
  by (auto simp: stat_def split: if_splits option.splits)

lemma ensureDir_error: "ensureDir p t = Inl e \<Longrightarrow> hd (message e) \<in> set ''ESC''"
  by (auto simp: ensureDir_def split: if_splits option.splits)

lemma writeFile_error: "writeFile p b t = Inl e \<Longrightarrow> hd (message e) \<in> set ''ESC''"
  by (auto simp: writeFile_def split: if_splits option.splits node.splits)

lemma overlay_fold_error:
  assumes "\<And>n c ds' e. (n, c) \<in> set ss \<Longrightarrow> overlay c (map_of ds' n) = Inl e
             \<Longrightarrow> hd (message e) \<in> set ''ESC''"
  shows "fold (\<lambda>(n, c) acc. case acc of Inl e \<Rightarrow> Inl e
                 | Inr ds' \<Rightarrow> map_sum id (\<lambda>c'. AList.update n c' ds') (overlay c (map_of ds' n)))
          ss acc = Inl e
         \<Longrightarrow> acc = Inl e \<or> hd (message e) \<in> set ''ESC''"
  using assms
proof (induction ss arbitrary: acc)
  case Nil
  then show ?case by simp
next
  case (Cons x ss)
  obtain n c where x: "x = (n, c)" by (cases x)
  let ?step = "case acc of Inl e \<Rightarrow> Inl e
                 | Inr ds' \<Rightarrow> map_sum id (\<lambda>c'. AList.update n c' ds') (overlay c (map_of ds' n))"
  from Cons.prems(1) x have "fold (\<lambda>(n, c) acc. case acc of Inl e \<Rightarrow> Inl e
                 | Inr ds' \<Rightarrow> map_sum id (\<lambda>c'. AList.update n c' ds') (overlay c (map_of ds' n)))
          ss ?step = Inl e" by simp
  moreover have "hd (message e) \<in> set ''ESC''"
    if "(n, c) \<in> set ss" "overlay c (map_of ds' n) = Inl e" for n c ds' e
    using Cons.prems(2)[of n c ds' e] that by simp
  ultimately have "?step = Inl e \<or> hd (message e) \<in> set ''ESC''" by (rule Cons.IH)
  then show ?case
  proof
    assume s: "?step = Inl e"
    show ?thesis
    proof (cases acc)
      case (Inl a)
      with s show ?thesis by simp
    next
      case (Inr ds')
      with s have "overlay c (map_of ds' n) = Inl e"
        by (cases "overlay c (map_of ds' n)") auto
      with Cons.prems(2)[of n c ds' e] x show ?thesis by simp
    qed
  qed simp
qed

lemma overlay_error: "overlay s d = Inl e \<Longrightarrow> hd (message e) \<in> set ''ESC''"
proof (induction s d arbitrary: e rule: overlay.induct)
  case (1 b)
  then show ?case by simp
next
  case (2 b b')
  then show ?case by simp
next
  case (3 b ds)
  then show ?case by auto
next
  case (4 ss)
  then show ?case by simp
next
  case (5 ss b')
  then show ?case by auto
next
  case (6 ss ds)
  let ?f = "fold (\<lambda>(n, c) acc. case acc of Inl e \<Rightarrow> Inl e
                 | Inr ds' \<Rightarrow> map_sum id (\<lambda>c'. AList.update n c' ds') (overlay c (map_of ds' n)))
          ss (Inr ds)"
  from "6.prems" have "?f = Inl e" by (cases ?f) auto
  moreover have "\<And>n c ds' e. (n, c) \<in> set ss \<Longrightarrow> overlay c (map_of ds' n) = Inl e
             \<Longrightarrow> hd (message e) \<in> set ''ESC''"
    by (rule "6.IH"[OF _ refl])
  ultimately have "Inr ds = (Inl e :: error + (string \<times> node) list) \<or> hd (message e) \<in> set ''ESC''"
    by (rule overlay_fold_error[rotated])
  then show ?case by simp
qed

lemma checkPaths_error: "checkPaths src dest t = Inl e \<Longrightarrow> hd (message e) \<in> set ''ESC''"
  by (auto simp: checkPaths_def stat_or_missing_def clash_def
        split: sum.splits option.splits if_splits node.splits prod.splits
        dest: stat_error)

lemma getStatsAndPerformCopy_error:
  "getStatsAndPerformCopy s d dest t = Inl e \<Longrightarrow> hd (message e) \<in> set ''ESC''"
  by (auto simp: getStatsAndPerformCopy_def simp del: overlay.simps
        split: sum.splits option.splits node.splits
        dest: writeFile_error overlay_error)

lemma copy_error: "copy src dest t = Inl e \<Longrightarrow> hd (message e) \<in> set ''ESC''"
  by (auto simp: copy_def split: sum.splits if_splits prod.splits
        dest: checkPaths_error ensureDir_error getStatsAndPerformCopy_error)

section \<open>Lemmas on paths\<close>

lemma split_slash_nonempty: "split_slash s \<noteq> []"
  by (induction s) (auto split: list.splits)

lemma split_slash_no_slash: "CHR ''/'' \<notin> set u \<Longrightarrow> split_slash u = [u]"
  by (induction u) auto

lemma split_slash_append:
  "CHR ''/'' \<notin> set u \<Longrightarrow>
   split_slash (s @ u) = butlast (split_slash s) @ [last (split_slash s) @ u]"
proof (induction s)
  case Nil
  then show ?case by (simp add: split_slash_no_slash)
next
  case (Cons c cs)
  then show ?case
    using split_slash_nonempty[of cs] split_slash_nonempty[of "cs @ u"]
    by (cases "split_slash cs") (auto split: list.splits)
qed

lemma norm_step_length_mono:
  "length a \<le> length b \<Longrightarrow> length (norm_step s a) \<le> length (norm_step s b)"
  by (auto simp: norm_step_def)

lemma fold_norm_step_length_mono:
  "length a \<le> length b \<Longrightarrow> length (fold norm_step xs a) \<le> length (fold norm_step xs b)"
  by (induction xs arbitrary: a b) (auto intro: norm_step_length_mono)

lemma fold_norm_step_range:
  "n \<in> set (fold norm_step xs acc) \<Longrightarrow> n \<in> set acc \<or> (n \<noteq> [] \<and> n \<noteq> ''.'' \<and> n \<noteq> ''..'')"
proof (induction xs arbitrary: acc)
  case Nil
  then show ?case by simp
next
  case (Cons x xs)
  from Cons.prems have "n \<in> set (fold norm_step xs (norm_step x acc))" by simp
  from Cons.IH[OF this] show ?case
    by (auto simp: norm_step_def split: if_splits dest: in_set_butlastD)
qed

lemma normalised_names:
  "n \<in> set (fold norm_step xs []) \<Longrightarrow> n \<noteq> [] \<and> n \<noteq> ''.'' \<and> n \<noteq> ''..''"
  using fold_norm_step_range[of n xs "[]"] by simp

lemma normalised_no_slash: "\<not> slash (fold norm_step xs [])"
proof
  assume "slash (fold norm_step xs [])"
  then have "fold norm_step xs [] \<noteq> []" "last (fold norm_step xs []) = []"
    by (simp_all add: slash_def)
  then have "[] \<in> set (fold norm_step xs [])" by (metis last_in_set)
  with normalised_names[of "[]" xs] show False by simp
qed

lemma fold_norm_step_names:
  "\<forall>n\<in>set p. n \<noteq> [] \<and> n \<noteq> ''.'' \<and> n \<noteq> ''..'' \<Longrightarrow> fold norm_step p acc = acc @ p"
  by (induction p arbitrary: acc) (auto simp: norm_step_def)

lemma path_join_names: "names (path_join base s) = fold norm_step (base @ split_slash s) []"
proof -
  define p where "p = fold norm_step (base @ split_slash s) []"
  have ns: "\<not> slash p" unfolding p_def by (rule normalised_no_slash)
  have "path_join base s = p \<or> path_join base s = p @ [[]]"
    unfolding path_join_def Let_def p_def[symmetric] by simp
  then have "names (path_join base s) = p"
  proof
    assume "path_join base s = p" with ns show ?thesis by (simp add: names_def)
  next
    assume "path_join base s = p @ [[]]" then show ?thesis by (simp add: names_def slash_def)
  qed
  then show ?thesis by (simp only: p_def)
qed

lemma path_join_slash:
  "slash (path_join base s)
     \<longleftrightarrow> fold norm_step (base @ split_slash s) [] \<noteq> []
           \<and> (if s = [] then slash base else last s = CHR ''/'')"
proof -
  define p where "p = fold norm_step (base @ split_slash s) []"
  define c where "c = (if s = [] then slash base else last s = CHR ''/'')"
  have ns: "\<not> slash p" unfolding p_def by (rule normalised_no_slash)
  have pj: "path_join base s = (if p \<noteq> [] \<and> c then p @ [[]] else p)"
    unfolding path_join_def Let_def p_def[symmetric] c_def[symmetric] by (rule refl)
  have "slash (path_join base s) \<longleftrightarrow> p \<noteq> [] \<and> c"
    using ns by (simp add: pj) (simp add: slash_def)
  then show ?thesis by (simp only: p_def c_def)
qed

lemma metadataPath_names:
  "metadataPath prov = fold norm_step (basePath prov) [] @ [''.metadata'']"
  by (simp add: metadataPath_def path_join_def norm_step_def)

lemma metadataPath_no_slash: "\<not> slash (metadataPath prov)"
  by (simp add: metadataPath_names slash_def)

lemma fold_norm_step_metadataPath:
  "fold norm_step (metadataPath prov) [] = metadataPath prov"
proof -
  have "\<forall>n\<in>set (metadataPath prov). n \<noteq> [] \<and> n \<noteq> ''.'' \<and> n \<noteq> ''..''"
    using normalised_names[of _ "basePath prov"] by (auto simp: metadataPath_names)
  from fold_norm_step_names[OF this, of "[]"] show ?thesis by simp
qed

lemma getMetadataPath_last:
  "getMetadataPath prov key
     = fold norm_step (butlast (split_slash (sanitize key))) (metadataPath prov)
       @ [last (split_slash (sanitize key)) @ ''.json'']"
proof -
  have "split_slash (sanitize key @ ''.json'')
          = butlast (split_slash (sanitize key)) @ [last (split_slash (sanitize key)) @ ''.json'']"
    by (rule split_slash_append) simp
  then show ?thesis
    by (simp add: getMetadataPath_def path_join_def norm_step_def fold_norm_step_metadataPath)
qed


lemma metadata_path_no_slash: "\<not> slash (getMetadataPath prov key)"
  by (simp add: getMetadataPath_last slash_def)


lemma getFilePath_names:
  "names (getFilePath prov key)
     = norm_step (last (split_slash (sanitize key)))
         (fold norm_step (butlast (split_slash (sanitize key))) (fold norm_step (basePath prov) []))"
proof -
  define xs where "xs = butlast (split_slash (sanitize key))"
  define t where "t = last (split_slash (sanitize key))"
  have e: "split_slash (sanitize key) = xs @ [t]"
    using split_slash_nonempty[of "sanitize key"] by (simp add: xs_def t_def)
  have "fold norm_step (basePath prov @ xs @ [t]) []
     = norm_step t (fold norm_step xs (fold norm_step (basePath prov) []))"
    by simp
  then have "names (getFilePath prov key)
     = norm_step t (fold norm_step xs (fold norm_step (basePath prov) []))"
    by (simp only: getFilePath_def path_join_names e)
  then show ?thesis by (simp only: xs_def t_def)
qed

text \<open>The content file and the sidecar of one key are never the same file.\<close>

lemma file_names_not_metadata_path: "names (getFilePath prov key) \<noteq> getMetadataPath prov key"
proof
  assume eq: "names (getFilePath prov key) = getMetadataPath prov key"
  define xs where "xs = butlast (split_slash (sanitize key))"
  define t where "t = last (split_slash (sanitize key))"
  define A where "A = fold norm_step xs (fold norm_step (basePath prov) [])"
  define M where "M = fold norm_step xs (metadataPath prov)"
  have len: "length A \<le> length M"
    unfolding A_def M_def by (rule fold_norm_step_length_mono) (simp add: metadataPath_names)
  from eq have "norm_step t A = M @ [t @ ''.json'']"
    by (simp add: getFilePath_names getMetadataPath_last xs_def t_def A_def M_def)
  then show False
    using len by (auto simp: norm_step_def split: if_splits dest: arg_cong[where f=length])
qed

lemma file_path_not_metadata_path: "getFilePath prov key \<noteq> getMetadataPath prov key"
  using file_names_not_metadata_path[of prov key] metadata_path_no_slash[of prov key]
  by (auto simp: names_def)


section \<open>Lemmas on the local provider\<close>

lemma sidecar_fields [simp]:
  "js_get (sidecar k n ct h u m) ''key'' = Some (JStr k)"
  "js_get (sidecar k n ct h u m) ''size'' = Some (JNum (int n))"
  "js_get (sidecar k n ct h u m) ''contentType'' = Some (JStr ct)"
  "js_get (sidecar k n ct h u m) ''hash'' = Some (JStr h)"
  "js_get (sidecar k n ct h u m) ''uploadTime'' = Some (JStr u)"
  "js_get (sidecar k n ct h u m) ''metadata'' = Some m"
  "sidecar k n ct h u m \<noteq> JNull"
  by (simp_all add: sidecar_def fmlookup_of_list)

text \<open>What a successful upload has done, and the two files it leaves.\<close>

lemma local_upload_success:
  assumes "local_upload env prov clk key data opts fs = (Inr r, fs')"
  shows "\<exists>fs1 fs2 n ct content.
           ensureDir (dirname (getFilePath prov key)) fs = Inr fs1
         \<and> store_content env (getFilePath prov key) data (opt_contentType opts) fs1 = (Inr (n, ct), fs2)
         \<and> \<not> slash (getFilePath prov key)
         \<and> lookup fs2 (getFilePath prov key) = Some (File content)
         \<and> writeFile (getMetadataPath prov key)
              (stringify env (sidecar key n (or_octet_stream ct) (md5hex env content) (isoNow clk)
                                 (or_empty_object (opt_metadata opts)))) fs2 = Inr fs'
         \<and> up_etag r = md5hex env content \<and> up_size r = n \<and> up_key r = key \<and> up_success r"
proof -
  let ?f = "getFilePath prov key"
  from assms obtain fs1 where e: "ensureDir (dirname ?f) fs = Inr fs1"
    by (cases "ensureDir (dirname ?f) fs") (auto simp: local_upload_def Let_def)
  obtain res fs2 where sc: "store_content env ?f data (opt_contentType opts) fs1 = (res, fs2)"
    by (cases "store_content env ?f data (opt_contentType opts) fs1")
  from assms e sc obtain n ct where res: "res = Inr (n, ct)"
    by (cases res) (auto simp: local_upload_def Let_def)
  from assms e sc res obtain hash where h: "calculateHash env fs2 ?f = Inr hash"
    by (cases "calculateHash env fs2 ?f") (auto simp: local_upload_def Let_def)
  then obtain content where rd: "readFile fs2 ?f = Inr content" and hc: "hash = md5hex env content"
    by (auto simp: calculateHash_def split: sum.splits)
  from assms e sc res h have
    w: "writeFile (getMetadataPath prov key)
              (stringify env (sidecar key n (or_octet_stream ct) hash (isoNow clk)
                                 (or_empty_object (opt_metadata opts)))) fs2 = Inr fs'"
    and r: "up_etag r = hash" "up_size r = n" "up_key r = key" "up_success r"
    by (auto simp: local_upload_def Let_def split: sum.splits)
  from rd have "\<not> slash ?f" "lookup fs2 ?f = Some (File content)"
    by (simp_all add: readFile_iff)
  with e sc res w r hc show ?thesis by auto
qed

lemma local_upload_files:
  assumes up: "local_upload env prov clk key data opts fs = (Inr r, fs')"
  shows "\<exists>content j. lookup fs' (getFilePath prov key) = Some (File content)
         \<and> \<not> slash (getFilePath prov key)
         \<and> lookup fs' (getMetadataPath prov key) = Some (File (stringify env j))
         \<and> js_get j ''hash'' = Some (JStr (up_etag r))
         \<and> js_get j ''size'' = Some (JNum (int (up_size r)))
         \<and> js_get j ''key'' = Some (JStr key)
         \<and> j \<noteq> JNull
         \<and> up_etag r = md5hex env content"
proof -
  from local_upload_success[OF up] obtain fs2 n ct content where
    c: "lookup fs2 (getFilePath prov key) = Some (File content)" and
    ns: "\<not> slash (getFilePath prov key)" and
    w: "writeFile (getMetadataPath prov key)
              (stringify env (sidecar key n (or_octet_stream ct) (md5hex env content) (isoNow clk)
                                 (or_empty_object (opt_metadata opts)))) fs2 = Inr fs'" and
    r: "up_etag r = md5hex env content" "up_size r = n"
    by blast
  from writeFile_keeps_file[OF w file_path_not_metadata_path c]
  have "lookup fs' (getFilePath prov key) = Some (File content)" .
  moreover note writeFile_lookup_same[OF w]
  ultimately show ?thesis using r ns by (intro exI[of _ content] exI) (auto simp del: )
qed











text \<open>\<^verbatim>\<open>download\<close> reports an object as not found only when its content path does not exist.\<close>

lemma not_found_not_fs_error:
  "hd (message e) \<in> set ''ESC'' \<Longrightarrow> wrap pre e \<noteq> wrap pre (not_found key)"
  by (auto simp: wrap_def not_found_def)

lemma local_download_not_found:
  "fst (local_download env prov clk key dest fs)
     = Inl (wrap ''Local storage download failed'' (not_found key))
   \<longleftrightarrow> \<not> pathExists fs (getFilePath prov key)"
proof (cases "pathExists fs (getFilePath prov key)")
  case False
  then show ?thesis by (simp add: local_download_def)
next
  case True
  let ?nf = "Inl (wrap ''Local storage download failed'' (not_found key)) :: error + download_result"
  have ne: "(Inl (wrap ''Local storage download failed'' e) :: error + download_result) \<noteq> ?nf"
    if "hd (message e) \<in> set ''ESC''" for e
    using not_found_not_fs_error[OF that] by simp
  have "fst (local_download env prov clk key dest fs) \<noteq> ?nf"
  proof (cases "resolve env dest")
    case None
    with True ne[of "Error ''ENOENT''"] show ?thesis by (simp add: local_download_def)
  next
    case (Some d)
    show ?thesis
    proof (cases "ensureDir (dirname d) fs")
      case (Inl e)
      with True Some ne[OF ensureDir_error[OF Inl]] show ?thesis by (simp add: local_download_def)
    next
      case (Inr fs1)
      show ?thesis
      proof (cases "copy (getFilePath prov key) d fs1")
        case (Inl e)
        with True Some Inr ne[OF copy_error[OF Inl]] show ?thesis by (simp add: local_download_def)
      next
        case cp: (Inr fs2)
        show ?thesis
        proof (cases "stat fs2 d")
          case (Inl e)
          with True Some Inr cp ne[OF stat_error[OF Inl]] show ?thesis
            by (simp add: local_download_def)
        next
          case st: (Inr n)
          with True Some Inr cp show ?thesis by (simp add: local_download_def)
        qed
      qed
    qed
  qed
  with True show ?thesis by simp
qed

subsection \<open>Runs on the sample platform\<close>

lemma sample_round_trip: "parse sample_platform (stringify sample_platform j) = Some j"
  by (simp add: sample_platform_def)

lemmas eval_paths = getFilePath_def getMetadataPath_def metadataPath_def path_join_def
  sanitize_def safe_chars_def norm_step_def names_def slash_def dirname_def Let_def

lemmas eval_fs = ensureDir_def writeFile_def readFile_def stat_def stat_or_missing_def
  pathExists_def remove_def checkPaths_def clash_def getStatsAndPerformCopy_def copy_def
  calculateHash_def

lemma fresh_store_initialized:
  "local_initialize sample_provider (Dir []) = (Inr (), fresh_store)"
  by (simp add: local_initialize_def sample_provider_def fresh_store_def eval_paths eval_fs)

lemma sample_upload:
  "local_upload sample_platform sample_provider sample_clock ''a.txt'' (Buffer ''hello'') no_options
     fresh_store
   = (Inr \<lparr>up_success = True, up_key = ''a.txt'', up_location = [''store'', ''a.txt''],
           up_etag = ''md5-of-hello'', up_size = 5, up_uploadTime = 3, up_provider = ''local''\<rparr>,
      Dir [(''store'',
            Dir [(''.metadata'',
                  Dir [(''a.txt.json'',
                        File (stringify sample_platform
                                (sidecar ''a.txt'' 5 ''application/octet-stream'' ''md5-of-hello''
                                   ''2024-01-01T00:00:00.000Z'' (JObj fmempty))))]),
                 (''a.txt'', File ''hello'')])])"
  by (simp add: local_upload_def sample_provider_def fresh_store_def no_options_def
        sample_clock_def store_content_def is_existing_path_def or_octet_stream_def
        or_empty_object_def provider_name_def eval_paths eval_fs sample_platform_def
        eval_nat_numeral)

lemma list_without_metadata_dir:
  "local_list sample_platform sample_provider opts (Dir [])
     = Inl (Error ''Local storage list failed: ENOENT'')"
  by (simp add: local_list_def findMetadataFiles_def sample_provider_def eval_paths eval_fs wrap_def)

lemma list_fresh_store:
  "local_list sample_platform sample_provider \<lparr>opt_prefix = None, opt_limit = Some 1\<rparr> fresh_store
     = Inr \<lparr>lp_objects = [], lp_isTruncated = False, lp_provider = ''local''\<rparr>"
  by (simp add: local_list_def findMetadataFiles_def sample_provider_def eval_paths eval_fs
        fresh_store_def effective_limit_def sort_by_key_def provider_name_def)






lemma orphan_paths:
  "pathExists orphan_content_store (getFilePath sample_provider ''a.txt'')"
  "\<not> pathExists orphan_content_store (getMetadataPath sample_provider ''a.txt'')"
  "\<not> pathExists orphan_sidecar_store (getFilePath sample_provider ''a.txt'')"
  "pathExists orphan_sidecar_store (getMetadataPath sample_provider ''a.txt'')"
  by (simp_all add: orphan_content_store_def orphan_sidecar_store_def sample_provider_def
        eval_paths eval_fs)

lemma nested_key_upload_fails:
  "local_upload env sample_provider clk ''a/b'' (Buffer ''hello'') no_options fresh_store
     = (Inl (Error ''Local storage upload failed: ENOENT''),
        Dir [(''store'', Dir [(''.metadata'', Dir []), (''a'', Dir [(''b'', File ''hello'')])])])"
  by (simp add: local_upload_def sample_provider_def fresh_store_def no_options_def
        store_content_def is_existing_path_def wrap_def eval_paths eval_fs)

lemma nested_key_getMetadata_fails:
  "local_getMetadata env sample_provider ''a/b''
     (Dir [(''store'', Dir [(''.metadata'', Dir []), (''a'', Dir [(''b'', File ''hello'')])])])
     = Inl (Error (''Failed to get metadata: Object '' @ quoted ''a/b'' @ '' not found''))"
  by (simp add: local_getMetadata_def sample_provider_def not_found_def wrap_def eval_paths eval_fs)

section \<open>Lemmas on the factory and the runner\<close>

lemma lower_table_disjoint: "snd ` set lower_table \<inter> fst ` set lower_table = {}"
  by (simp add: lower_table_def)

lemma lower_table_range:
  assumes "map_of lower_table c = Some l" shows "map_of lower_table l = None"
proof -
  from assms have "(c, l) \<in> set lower_table" by (rule map_of_SomeD)
  then have "l \<in> snd ` set lower_table" by force
  with lower_table_disjoint have "l \<notin> fst ` set lower_table" by blast
  then show ?thesis by (simp add: map_of_eq_None_iff)
qed

lemma toLowerCase_idem: "toLowerCase (toLowerCase s) = toLowerCase s"
  by (induction s) (auto simp: toLowerCase_def dest: lower_table_range split: option.splits)

text \<open>
  The lookup is case-insensitive: a name and its lower-case form construct the same
  provider class.  A name whose lower-case form is neither a known identifier nor a
  property of \<^verbatim>\<open>Object.prototype\<close> is refused with the error that names it and lists the
  known identifiers.  A known class is not constructed without a configuration.
\<close>

lemma create_same_class:
  "create (toLowerCase s) config = Inr (Provider cls c) \<longleftrightarrow> create s config = Inr (Provider cls c)"
  by (auto simp: create_def toLowerCase_idem split: option.splits property.splits if_splits)

lemma create_unknown:
  assumes "toLowerCase s \<notin> set getAvailableProviders" "toLowerCase s \<notin> set object_prototype"
  shows "create s config
     = Inl (Error (''Unknown storage provider: '' @ s
                   @ ''. Available providers: aws, gcp, azure, minio, local''))"
proof -
  from assms(1) have "map_of providers (toLowerCase s) = None"
    by (simp add: map_of_eq_None_iff providers_def getAvailableProviders_def)
  with assms(2) show ?thesis
    by (simp add: create_def providers_get_def providers_def)
qed

lemma create_without_config:
  "map_of providers (toLowerCase s) = Some cls \<Longrightarrow> create s None = Inl (Error ''TypeError'')"
  by (simp add: create_def providers_get_def)

lemma update_fresh: "k \<notin> fst ` set al \<Longrightarrow> AList.update k v al = al @ [(k, v)]"
  by (induction al) auto

lemma run_tests_outcomes:
  "distinct (map fst ts) \<Longrightarrow> fst ` set acc \<inter> fst ` set ts = {} \<Longrightarrow>
   fst (run_tests keep ts acc w)
     = acc @ map (\<lambda>(n, out). (n, record_of keep out)) (outcomes_in_turn ts w)"
proof (induction ts arbitrary: acc w)
  case Nil
  then show ?case by simp
next
  case (Cons t ts)
  obtain name fn where t: "t = (name, fn)" by (cases t)
  obtain out w' where fw: "fn w = (out, w')" by (cases "fn w")
  from Cons.prems t have fresh: "name \<notin> fst ` set acc" by auto
  let ?acc' = "acc @ [(name, record_of keep out)]"
  from Cons.prems t have d: "distinct (map fst ts)" and "fst ` set ?acc' \<inter> fst ` set ts = {}"
    by auto
  then have IH: "fst (run_tests keep ts ?acc' w')
     = ?acc' @ map (\<lambda>(n, out). (n, record_of keep out)) (outcomes_in_turn ts w')"
    by (rule Cons.IH)
  show ?case
    using IH fresh by (cases out) (simp_all add: t fw update_fresh record_of_def)
qed

lemma run_suite_outcomes:
  "fst (run_suite testType methods provider w)
     = map (\<lambda>(n, out). (n, record_of (fst (suite_of testType)) out))
         (outcomes_in_turn (bind_tests methods provider (snd (suite_of testType))) w)"
proof -
  have d: "distinct (map fst (bind_tests methods provider basic_tests))"
     "distinct (map fst (bind_tests methods provider performance_tests))"
     "distinct (map fst (bind_tests methods provider security_tests))"
    by (simp_all add: bind_tests_def basic_tests_def performance_tests_def security_tests_def)
  show ?thesis
    using d by (simp add: run_suite_def suite_of_def runBasicTests_def runPerformanceTests_def
        runSecurityTests_def run_tests_outcomes)
qed

lemma count_all: "(length (filter P xs) = length xs) = (\<forall>x\<in>set xs. P x)"
  by (metis filter_id_conv length_filter_less less_irrefl_nat)

section \<open>The claims\<close>

text \<open>
  Claim C1, as the code has it.  For the local provider, \<^verbatim>\<open>exists(k)\<close> and
  \<^verbatim>\<open>download(k, dest)\<close> decide presence by the content file alone: \<^verbatim>\<open>exists(k)\<close> is
  true exactly when the content path exists, and \<^verbatim>\<open>download\<close> fails with the not-found
  error exactly when it does not, whatever the sidecar.  \<^verbatim>\<open>getMetadata(k)\<close> fails with the
  not-found error when the sidecar is missing, and returns only when both files exist.
\<close>

theorem presence_by_content_file:
  "local_exists prov key fs = Inr (pathExists fs (getFilePath prov key))
   \<and> (fst (local_download env prov clk key dest fs)
          = Inl (wrap ''Local storage download failed'' (not_found key))
        \<longleftrightarrow> \<not> pathExists fs (getFilePath prov key))
   \<and> (\<not> pathExists fs (getMetadataPath prov key)
        \<longrightarrow> local_getMetadata env prov key fs
              = Inl (wrap ''Failed to get metadata'' (not_found key)))
   \<and> (\<forall>m. local_getMetadata env prov key fs = Inr m
        \<longrightarrow> pathExists fs (getMetadataPath prov key) \<and> pathExists fs (getFilePath prov key))"
proof (intro conjI)
  show "local_exists prov key fs = Inr (pathExists fs (getFilePath prov key))"
    by (simp add: local_exists_def)
  show "fst (local_download env prov clk key dest fs)
          = Inl (wrap ''Local storage download failed'' (not_found key))
        \<longleftrightarrow> \<not> pathExists fs (getFilePath prov key)"
    by (rule local_download_not_found)
  show "\<not> pathExists fs (getMetadataPath prov key)
        \<longrightarrow> local_getMetadata env prov key fs
              = Inl (wrap ''Failed to get metadata'' (not_found key))"
    by (simp add: local_getMetadata_def)
  show "\<forall>m. local_getMetadata env prov key fs = Inr m
        \<longrightarrow> pathExists fs (getMetadataPath prov key) \<and> pathExists fs (getFilePath prov key)"
    by (auto simp: local_getMetadata_def Let_def pathExists_stat
          split: option.splits sum.splits if_splits)
qed

theorem presence_by_content_file_witness:
  "\<not> pathExists orphan_content_store (getMetadataPath sample_provider ''a.txt'')
   \<and> local_getMetadata sample_platform sample_provider ''a.txt'' orphan_content_store
       = Inl (wrap ''Failed to get metadata'' (not_found ''a.txt''))
   \<and> local_exists sample_provider ''a.txt'' orphan_content_store = Inr True
   \<and> fst (local_download sample_platform sample_provider sample_clock ''a.txt'' ''out.txt''
            orphan_content_store)
       \<noteq> Inl (wrap ''Local storage download failed'' (not_found ''a.txt''))"
  using presence_by_content_file[of sample_provider "''a.txt''" orphan_content_store
          sample_platform sample_clock "''out.txt''"]
  by (simp add: orphan_paths)

text \<open>
  Claim C1 as stated fails.  With the content file and no sidecar, \<^verbatim>\<open>exists\<close> answers
  true and \<^verbatim>\<open>download\<close> succeeds, so the key is treated as present; with the sidecar and
  no content file, \<^verbatim>\<open>exists\<close> answers false, \<^verbatim>\<open>download\<close> reports not found and
  \<^verbatim>\<open>getMetadata\<close> fails on the missing content file, so the key is treated as absent.
\<close>

theorem presence_by_sidecar_counterexample:
  "\<not> pathExists orphan_content_store (getMetadataPath sample_provider ''a.txt'')
   \<and> local_exists sample_provider ''a.txt'' orphan_content_store = Inr True
   \<and> fst (local_download sample_platform sample_provider sample_clock ''a.txt'' ''out.txt''
            orphan_content_store)
       = Inr \<lparr>dl_success = True, dl_key = ''a.txt'', dl_destinationPath = ''out.txt'', dl_size = 5,
              dl_downloadTime = 3, dl_provider = ''local''\<rparr>
   \<and> pathExists orphan_sidecar_store (getMetadataPath sample_provider ''a.txt'')
   \<and> local_exists sample_provider ''a.txt'' orphan_sidecar_store = Inr False
   \<and> fst (local_download sample_platform sample_provider sample_clock ''a.txt'' ''out.txt''
            orphan_sidecar_store)
       = Inl (Error (''Local storage download failed: Object '' @ quoted ''a.txt'' @ '' not found''))
   \<and> local_getMetadata sample_platform sample_provider ''a.txt'' orphan_sidecar_store
       = Inl (Error ''Failed to get metadata: ENOENT'')"
proof (intro conjI)
  show "\<not> pathExists orphan_content_store (getMetadataPath sample_provider ''a.txt'')"
    by (rule orphan_paths)
  show "local_exists sample_provider ''a.txt'' orphan_content_store = Inr True"
    by (simp add: local_exists_def orphan_paths)
  show "fst (local_download sample_platform sample_provider sample_clock ''a.txt'' ''out.txt''
            orphan_content_store)
       = Inr \<lparr>dl_success = True, dl_key = ''a.txt'', dl_destinationPath = ''out.txt'', dl_size = 5,
              dl_downloadTime = 3, dl_provider = ''local''\<rparr>"
    by (simp add: local_download_def orphan_content_store_def sample_provider_def sample_clock_def
          sample_platform_def eval_paths eval_fs stat_size_def provider_name_def)
  show "pathExists orphan_sidecar_store (getMetadataPath sample_provider ''a.txt'')"
    by (rule orphan_paths)
  show "local_exists sample_provider ''a.txt'' orphan_sidecar_store = Inr False"
    by (simp add: local_exists_def orphan_paths)
  show "fst (local_download sample_platform sample_provider sample_clock ''a.txt'' ''out.txt''
            orphan_sidecar_store)
       = Inl (Error (''Local storage download failed: Object '' @ quoted ''a.txt'' @ '' not found''))"
    by (simp add: local_download_def orphan_paths wrap_def not_found_def)
  show "local_getMetadata sample_platform sample_provider ''a.txt'' orphan_sidecar_store
       = Inl (Error ''Failed to get metadata: ENOENT'')"
    by (simp add: local_getMetadata_def orphan_sidecar_store_def sample_provider_def
          eval_paths eval_fs sample_round_trip wrap_def)
qed




text \<open>
  Claim C4, at a key with a directory part.  On a freshly initialised store,
  \<^verbatim>\<open>upload('a/b', bytes)\<close> creates \<^verbatim>\<open>store/a\<close> for the content and writes it, then fails
  to write the sidecar \<^verbatim>\<open>store/.metadata/a/b.json\<close>, whose directory nothing creates
  (\<^verbatim>\<open>ENOENT\<close>); the content file stays behind, and \<^verbatim>\<open>getMetadata('a/b')\<close> on the state
  left reports the object as not found instead of returning its size.
\<close>

theorem nested_key_upload_loses_metadata:
  "local_upload env sample_provider clk ''a/b'' (Buffer ''hello'') no_options fresh_store
     = (Inl (Error ''Local storage upload failed: ENOENT''),
        Dir [(''store'', Dir [(''.metadata'', Dir []), (''a'', Dir [(''b'', File ''hello'')])])])
   \<and> local_getMetadata env sample_provider ''a/b''
        (Dir [(''store'', Dir [(''.metadata'', Dir []), (''a'', Dir [(''b'', File ''hello'')])])])
     = Inl (Error (''Failed to get metadata: Object '' @ quoted ''a/b'' @ '' not found''))"
  by (simp only: nested_key_upload_fails nested_key_getMetadata_fails)




text \<open>
  Claim C7.  For a provider that the configuration knows and the factory constructs:
  when its \<^verbatim>\<open>initialize()\<close> throws, the run records the provider with overall status
  \<^verbatim>\<open>error\<close>, the error's message and no test; otherwise it records a result whose tests
  are the records of the outcomes of all tests of the selected suite run in turn (a test
  that throws is recorded \<^verbatim>\<open>failed\<close> with its message, and the tests after it still
  run), whose overall status is \<^verbatim>\<open>passed\<close> if and only if every recorded test has status
  \<^verbatim>\<open>passed\<close>, and \<^verbatim>\<open>failed\<close> otherwise.
\<close>

theorem testProvider_overall:
  assumes cfg: "getProvider providerName = Inr config"
      and mk: "create providerName (Some config) = Inr (Provider cls config)"
  shows "(\<forall>e w1. initialize cls config w = (Inl e, w1) \<longrightarrow>
            testProvider getProvider initialize cleanup methods providerName testType results w
              = (results @ [\<lparr>pr_provider = providerName, pr_tests = [], pr_overall = ''error'',
                              pr_passRate = None, pr_error = Some (message e)\<rparr>], w1))
       \<and> (\<forall>w1. initialize cls config w = (Inr (), w1) \<longrightarrow>
            (\<exists>r rest. fst (testProvider getProvider initialize cleanup methods providerName
                              testType results w) = results @ r # rest
               \<and> pr_tests r
                    = map (\<lambda>(n, out). (n, record_of (fst (suite_of testType)) out))
                        (outcomes_in_turn
                           (bind_tests methods (Provider cls config) (snd (suite_of testType))) w1)
               \<and> (pr_overall r = ''passed'' \<longleftrightarrow> (\<forall>t\<in>set (pr_tests r). t_status (snd t) = ''passed''))
               \<and> (pr_overall r = ''failed'' \<longleftrightarrow> \<not> (\<forall>t\<in>set (pr_tests r). t_status (snd t) = ''passed''))))"
proof (intro conjI allI impI)
  fix e w1 assume "initialize cls config w = (Inl e, w1)"
  then show "testProvider getProvider initialize cleanup methods providerName testType results w
              = (results @ [\<lparr>pr_provider = providerName, pr_tests = [], pr_overall = ''error'',
                              pr_passRate = None, pr_error = Some (message e)\<rparr>], w1)"
    by (simp add: testProvider_def cfg mk createAndInitialize_def error_result_def)
next
  fix w1 assume init: "initialize cls config w = (Inr (), w1)"
  let ?p = "Provider cls config"
  obtain tests w2 where rs: "run_suite testType methods ?p w1 = (tests, w2)"
    by (cases "run_suite testType methods ?p w1")
  let ?passed = "length (filter (\<lambda>r. t_status r = ''passed'') (map snd tests))"
  let ?r = "\<lparr>pr_provider = providerName, pr_tests = tests,
             pr_overall = (if ?passed = length (map snd tests) then ''passed'' else ''failed''),
             pr_passRate = Some (show_nat ?passed @ ''/'' @ show_nat (length (map snd tests))),
             pr_error = None\<rparr>"
  have tests: "tests = map (\<lambda>(n, out). (n, record_of (fst (suite_of testType)) out))
                        (outcomes_in_turn (bind_tests methods ?p (snd (suite_of testType))) w1)"
    using run_suite_outcomes[of testType methods ?p w1] rs by simp
  have all: "(?passed = length (map snd tests)) = (\<forall>t\<in>set tests. t_status (snd t) = ''passed'')"
    by (simp add: count_all)
  have "\<exists>rest. fst (testProvider getProvider initialize cleanup methods providerName testType results w)
          = results @ ?r # rest"
    by (cases "cleanup ?p w2"; cases "fst (cleanup ?p w2)")
       (simp_all add: testProvider_def cfg mk createAndInitialize_def init rs Let_def)
  moreover have "pr_tests ?r = map (\<lambda>(n, out). (n, record_of (fst (suite_of testType)) out))
                        (outcomes_in_turn (bind_tests methods ?p (snd (suite_of testType))) w1)"
    using tests by simp
  moreover have "pr_overall ?r = ''passed'' \<longleftrightarrow> (\<forall>t\<in>set (pr_tests ?r). t_status (snd t) = ''passed'')"
    using all by simp
  moreover have "pr_overall ?r = ''failed'' \<longleftrightarrow> \<not> (\<forall>t\<in>set (pr_tests ?r). t_status (snd t) = ''passed'')"
    using all by simp
  ultimately show "\<exists>r rest. fst (testProvider getProvider initialize cleanup methods providerName
                              testType results w) = results @ r # rest
               \<and> pr_tests r
                    = map (\<lambda>(n, out). (n, record_of (fst (suite_of testType)) out))
                        (outcomes_in_turn
                           (bind_tests methods (Provider cls config) (snd (suite_of testType))) w1)
               \<and> (pr_overall r = ''passed'' \<longleftrightarrow> (\<forall>t\<in>set (pr_tests r). t_status (snd t) = ''passed''))
               \<and> (pr_overall r = ''failed'' \<longleftrightarrow> \<not> (\<forall>t\<in>set (pr_tests r). t_status (snd t) = ''passed''))"
    by blast
qed

theorem testProvider_overall_witness:
  "(\<lambda>n. Inr ()) ''local'' = (Inr () :: error + unit)
   \<and> create ''local'' (Some ()) = Inr (Provider LocalStorageProvider ())
   \<and> testProvider (\<lambda>n. Inr ()) (\<lambda>cls c w. (Inl (Error ''no such directory''), w)) (\<lambda>p w. (Inr (), w))
        sample_methods ''local'' ''basic'' [] ()
       = ([\<lparr>pr_provider = ''local'', pr_tests = [], pr_overall = ''error'',
            pr_passRate = None, pr_error = Some ''no such directory''\<rparr>], ())
   \<and> (\<exists>r rest. fst (testProvider (\<lambda>n. Inr ()) (\<lambda>cls c w. (Inr (), w)) (\<lambda>p w. (Inr (), w))
                       sample_methods ''local'' ''basic'' [] ()) = r # rest
         \<and> map (\<lambda>t. (fst t, t_status (snd t))) (pr_tests r)
              = [(''Health Check'', ''passed''), (''Upload File'', ''failed''),
                 (''Download File'', ''passed''), (''List Objects'', ''passed''),
                 (''Get Metadata'', ''passed''), (''Object Exists'', ''passed''),
                 (''Delete Object'', ''passed'')]
         \<and> pr_overall r = ''failed'')"
proof -
  have cfg: "(\<lambda>n. Inr ()) ''local'' = (Inr () :: error + unit)" by simp
  have mk: "create ''local'' (Some ()) = Inr (Provider LocalStorageProvider ())"
    by (simp add: create_def providers_get_def toLowerCase_def lower_table_def providers_def)
  note t1 = testProvider_overall[of "\<lambda>n. Inr ()" "''local''" "()" LocalStorageProvider
      "\<lambda>cls c w. (Inl (Error ''no such directory''), w)" "()" "\<lambda>p w. (Inr (), w)" sample_methods
      "''basic''" "[]", OF cfg mk]
  note t2 = testProvider_overall[of "\<lambda>n. Inr ()" "''local''" "()" LocalStorageProvider
      "\<lambda>cls c w. (Inr (), w)" "()" "\<lambda>p w. (Inr (), w)" sample_methods
      "''basic''" "[]", OF cfg mk]
  from t1 have a: "testProvider (\<lambda>n. Inr ()) (\<lambda>cls c w. (Inl (Error ''no such directory''), w))
        (\<lambda>p w. (Inr (), w)) sample_methods ''local'' ''basic'' [] ()
       = ([\<lparr>pr_provider = ''local'', pr_tests = [], pr_overall = ''error'',
            pr_passRate = None, pr_error = Some ''no such directory''\<rparr>], ())"
    by simp
  have "\<exists>r rest. fst (testProvider (\<lambda>n. Inr ()) (\<lambda>cls c w. (Inr (), w)) (\<lambda>p w. (Inr (), w))
               sample_methods ''local'' ''basic'' [] ()) = [] @ r # rest
       \<and> pr_tests r = map (\<lambda>(n, out). (n, record_of (fst (suite_of ''basic'')) out))
                        (outcomes_in_turn
                           (bind_tests sample_methods (Provider LocalStorageProvider ())
                              (snd (suite_of ''basic''))) ())
       \<and> (pr_overall r = ''passed'' \<longleftrightarrow> (\<forall>t\<in>set (pr_tests r). t_status (snd t) = ''passed''))
       \<and> (pr_overall r = ''failed'' \<longleftrightarrow> \<not> (\<forall>t\<in>set (pr_tests r). t_status (snd t) = ''passed''))"
    by (rule t2[THEN conjunct2, THEN spec, of "()", THEN mp]) simp
  then obtain r rest where
    r: "fst (testProvider (\<lambda>n. Inr ()) (\<lambda>cls c w. (Inr (), w)) (\<lambda>p w. (Inr (), w))
               sample_methods ''local'' ''basic'' [] ()) = [] @ r # rest"
       "pr_tests r = map (\<lambda>(n, out). (n, record_of (fst (suite_of ''basic'')) out))
                        (outcomes_in_turn
                           (bind_tests sample_methods (Provider LocalStorageProvider ())
                              (snd (suite_of ''basic''))) ())"
       "pr_overall r = ''failed'' \<longleftrightarrow> \<not> (\<forall>t\<in>set (pr_tests r). t_status (snd t) = ''passed'')"
    by (elim exE conjE)
  from r(2) have tests: "map (\<lambda>t. (fst t, t_status (snd t))) (pr_tests r)
              = [(''Health Check'', ''passed''), (''Upload File'', ''failed''),
                 (''Download File'', ''passed''), (''List Objects'', ''passed''),
                 (''Get Metadata'', ''passed''), (''Object Exists'', ''passed''),
                 (''Delete Object'', ''passed'')]"
    by (simp add: suite_of_def bind_tests_def basic_tests_def sample_methods_def record_of_def)
  have "(''Upload File'', ''failed'') \<in> set (map (\<lambda>t. (fst t, t_status (snd t))) (pr_tests r))"
    unfolding tests by simp
  then have "\<not> (\<forall>t\<in>set (pr_tests r). t_status (snd t) = ''passed'')" by force
  with r(3) have "pr_overall r = ''failed''" by simp
  with cfg mk a r(1) tests show ?thesis by (intro conjI exI[of _ r] exI[of _ rest]) simp_all
qed

text \<open>
  Claim C9.  \<^verbatim>\<open>getHealth()\<close> never throws: it always returns a health record, whose status
  is \<^verbatim>\<open>healthy\<close> exactly when the provider's \<^verbatim>\<open>list({ limit: 1 })\<close> returns, and is
  \<^verbatim>\<open>unhealthy\<close>, with the message of the error, when that call throws.  It is written
  over the provider's \<^verbatim>\<open>list\<close> alone, whatever the backend.
\<close>

theorem getHealth_reports_list_outcome:
  "\<exists>h. getHealth list_fn name now st = Inr h
       \<and> h_provider h = name
       \<and> (h_status h = ''healthy'' \<longleftrightarrow> (\<exists>page. list_fn \<lparr>opt_prefix = None, opt_limit = Some 1\<rparr> st = Inr page))
       \<and> (\<forall>e. list_fn \<lparr>opt_prefix = None, opt_limit = Some 1\<rparr> st = Inl e
              \<longrightarrow> h_status h = ''unhealthy'' \<and> h_error h = Some (message e))"
  by (cases "list_fn \<lparr>opt_prefix = None, opt_limit = Some 1\<rparr> st") (simp_all add: getHealth_def)

theorem getHealth_reports_list_outcome_witness:
  "(\<exists>h. getHealth (local_list sample_platform sample_provider) ''local'' ''now'' (Dir []) = Inr h
        \<and> h_status h = ''unhealthy'' \<and> h_error h = Some ''Local storage list failed: ENOENT'')
   \<and> (\<exists>h. getHealth (local_list sample_platform sample_provider) ''local'' ''now'' fresh_store = Inr h
        \<and> h_status h = ''healthy'')"
  using getHealth_reports_list_outcome[of "local_list sample_platform sample_provider" "''local''" "''now''" "Dir []"]
        getHealth_reports_list_outcome[of "local_list sample_platform sample_provider" "''local''" "''now''" fresh_store]
  by (simp add: list_without_metadata_dir list_fresh_store) blast

text \<open>
  Claim C10, at the name \<^verbatim>\<open>constructor\<close>.  Its lower-case form is not a known
  identifier, but \<^verbatim>\<open>providers['constructor']\<close> is the inherited \<^verbatim>\<open>Object\<close>, which is
  truthy: \<^verbatim>\<open>create\<close> throws nothing and returns \<^verbatim>\<open>new Object(config)\<close>.
\<close>

theorem create_inherited_property:
  "create ''constructor'' config = Inr (PlainObject config)"
  by (simp add: create_def providers_get_def toLowerCase_def lower_table_def providers_def
        object_prototype_def)

end
